theory Spec2Isabelle
  imports Complex_Main
begin

section \<open>JavaScript values\<close>

text \<open>
  A JavaScript number, with its three non-finite values. The finite values are idealised
  as reals: rounding of IEEE doubles and of \<open>Float32Array\<close> elements is not modelled.
\<close>

datatype jsnum = NaN | NegInfinity | PosInfinity | Fin real

text \<open>
  Every \<open>throw\<close> of \<open>script.js\<close> is a plain \<open>Error\<close> with a message; the
  constructors below name the throw sites. \<open>TypeError\<close> and \<open>RangeError\<close> are the
  errors the JavaScript runtime raises itself (a property read on \<open>undefined\<close>, a typed
  array written or allocated out of range). \<open>TensorShapeInvalid\<close> is the \<open>Error\<close>
  with which \<open>tf.tensor\<close> refuses a shape.
\<close>

datatype error =
    PeriodNotPositive
  | ConfigMissing
  | CallbackMissing
  | InvalidNumFrames
  | NegativeSuppressionTime
  | OverlapFactorOutOfRange
  | TruncateLengthExceedsFftSize
  | AlreadyStarted
  | NotStreaming
  | TypeError
  | RangeError
  | TensorShapeInvalid

text \<open>The taxonomy of the errors: bad construction parameters, and calls in the wrong state.\<close>

definition invalid_argument :: "error \<Rightarrow> bool" where
  "invalid_argument e =
     (e = PeriodNotPositive \<or> e = ConfigMissing \<or> e = CallbackMissing \<or>
      e = InvalidNumFrames \<or> e = NegativeSuppressionTime \<or>
      e = OverlapFactorOutOfRange \<or> e = TruncateLengthExceedsFftSize)"

definition illegal_state :: "error \<Rightarrow> bool" where
  "illegal_state e = (e = AlreadyStarted \<or> e = NotStreaming)"

text \<open>
  The remainder operator \<open>%\<close> on integer-valued numbers: the sign follows the dividend,
  and a zero divisor gives \<open>NaN\<close> (here \<open>None\<close>).
\<close>

definition js_rem :: "int \<Rightarrow> int \<Rightarrow> int option" where
  "js_rem a b = (if b = 0 then None else Some (sgn a * (\<bar>a\<bar> mod \<bar>b\<bar>)))"

text \<open>\<open>Math.round\<close>: the nearest integer, a tie going up.\<close>

definition Math_round :: "real \<Rightarrow> int" where
  "Math_round x = \<lfloor>x + 1 / 2\<rfloor>"

text \<open>
  The result of an arithmetic operation on numbers is the exact result rounded to the
  nearest binary floating-point value, a tie going to the even one: \<open>fl p emin\<close> rounds
  to \<open>p\<close> significant bits with the least exponent \<open>emin\<close>. A double has 53 bits
  and least exponent \<open>-1022\<close>, an element of a \<open>Float32Array\<close> 24 bits and
  \<open>-126\<close>. \<open>fl64\<close> is the rounding where the result cannot leave the finite
  range; \<open>double_of\<close> and \<open>float32_of\<close> overflow to the infinities.
\<close>

definition round_even :: "real \<Rightarrow> int" where
  "round_even x =
     (let f = \<lfloor>x\<rfloor>; d = x - of_int f
      in if d < 1 / 2 then f else if 1 / 2 < d then f + 1 else if even f then f else f + 1)"

definition fl :: "nat \<Rightarrow> int \<Rightarrow> real \<Rightarrow> real" where
  "fl p emin x =
     (if x = 0 then 0
      else (let e = max \<lfloor>log 2 \<bar>x\<bar>\<rfloor> emin;
                u = 2 powr of_int (e - int p + 1)
            in of_int (round_even (x / u)) * u))"

definition fl64 :: "real \<Rightarrow> real" where
  "fl64 x = fl 53 (- 1022) x"

definition overflowing :: "nat \<Rightarrow> real \<Rightarrow> jsnum" where
  "overflowing emax r =
     (if 2 ^ emax \<le> r then PosInfinity else if r \<le> - (2 ^ emax) then NegInfinity else Fin r)"

definition double_of :: "real \<Rightarrow> jsnum" where
  "double_of x = overflowing 1024 (fl 53 (- 1022) x)"

definition float32_of :: "real \<Rightarrow> jsnum" where
  "float32_of x = overflowing 128 (fl 24 (- 126) x)"

text \<open>
  The division of two finite numbers: by zero it gives \<open>NaN\<close> or an infinity (the
  sign of a zero is not modelled).
\<close>

definition js_div :: "real \<Rightarrow> real \<Rightarrow> jsnum" where
  "js_div x y =
     (if y = 0 then (if x = 0 then NaN else if x > 0 then PosInfinity else NegInfinity)
      else double_of (x / y))"

section \<open>Tracker\<close>

text \<open>
  \<open>suppressionOnset\<close> is \<open>undefined\<close> until the first \<open>suppress()\<close>: \<open>None\<close>.
\<close>

record tracker =
  period :: int
  suppressionTime :: int
  counter :: int
  suppressionOnset :: "int option"

text \<open>
  The constructor. Its second argument may be \<open>null\<close> or \<open>undefined\<close> (\<open>None\<close>).
  The only check is the assertion on the period.
\<close>

definition Tracker_constructor :: "int \<Rightarrow> int option \<Rightarrow> error + tracker" where
  "Tracker_constructor p suppressionPeriod =
     (let t = \<lparr> period = p,
                suppressionTime = (case suppressionPeriod of None \<Rightarrow> 0 | Some s \<Rightarrow> s),
                counter = 0,
                suppressionOnset = None \<rparr>
      in if period t > 0 then Inr t else Inl PeriodNotPositive)"

definition Tracker_tick :: "tracker \<Rightarrow> bool \<times> tracker" where
  "Tracker_tick t =
     (let t' = t\<lparr> counter := counter t + 1 \<rparr>;
          shouldFire =
            (js_rem (counter t') (period t') = Some 0 \<and>
             (case suppressionOnset t' of
                None \<Rightarrow> True
              | Some onset \<Rightarrow> counter t' - onset > suppressionTime t'))
      in (shouldFire, t'))"

definition Tracker_suppress :: "tracker \<Rightarrow> tracker" where
  "Tracker_suppress t = t\<lparr> suppressionOnset := Some (counter t) \<rparr>"

section \<open>Typed arrays and tensors\<close>

text \<open>
  \<open>new Float32Array(n)\<close>: \<open>n\<close> zeros, a \<open>RangeError\<close> for a negative length.
\<close>

definition Float32Array_new :: "int \<Rightarrow> error + jsnum list" where
  "Float32Array_new n = (if n < 0 then Inl RangeError else Inr (replicate (nat n) (Fin 0)))"

text \<open>
  \<open>target.set(source, offset)\<close>: copies \<open>source\<close> into \<open>target\<close> from \<open>offset\<close> on;
  a \<open>RangeError\<close> when the offset is negative or the source does not fit.
\<close>

definition typed_array_set :: "jsnum list \<Rightarrow> jsnum list \<Rightarrow> int \<Rightarrow> error + jsnum list" where
  "typed_array_set target source offset =
     (if offset < 0 \<or> nat offset + length source > length target then Inl RangeError
      else Inr (take (nat offset) target @ source
                @ drop (nat offset + length source) target))"

text \<open>\<open>xs.slice(0, k)\<close>: a negative \<open>k\<close> counts from the end.\<close>

definition slice0 :: "'a list \<Rightarrow> int \<Rightarrow> 'a list" where
  "slice0 xs k = take (nat (if k < 0 then int (length xs) + k else k)) xs"

text \<open>
  The \<open>forEach\<close> of \<open>flattenQueue\<close>: frame \<open>i\<close> is written at \<open>i * frameSize\<close>.
\<close>

fun flattenQueue_forEach ::
  "nat \<Rightarrow> (nat \<times> jsnum list) list \<Rightarrow> jsnum list \<Rightarrow> error + jsnum list" where
  "flattenQueue_forEach frameSize [] freqData = Inr freqData"
| "flattenQueue_forEach frameSize ((i, data) # rest) freqData =
     (case typed_array_set freqData data (int (i * frameSize)) of
        Inl e \<Rightarrow> Inl e
      | Inr freqData' \<Rightarrow> flattenQueue_forEach frameSize rest freqData')"

text \<open>
  \<open>flattenQueue\<close>. Reading \<open>queue[0].length\<close> of an empty queue is a \<open>TypeError\<close>.
\<close>

definition flattenQueue :: "jsnum list list \<Rightarrow> error + jsnum list" where
  "flattenQueue queue =
     (case queue of
        [] \<Rightarrow> Inl TypeError
      | q0 # _ \<Rightarrow>
          (let frameSize = length q0;
               freqData = replicate (length queue * frameSize) (Fin 0)
           in flattenQueue_forEach frameSize (enumerate 0 queue) freqData))"

record tensor =
  tensor_values :: "jsnum list"
  tensor_shape :: "int list"

definition sizeFromShape :: "int list \<Rightarrow> int" where
  "sizeFromShape shape = prod_list shape"

text \<open>
  \<open>tf.tensor(vals, shape)\<close> of the tensor library (not part of the repository): it
  refuses a shape with a negative dimension, and a shape whose size is not the number of
  values.
\<close>

definition tf_tensor :: "jsnum list \<Rightarrow> int list \<Rightarrow> error + tensor" where
  "tf_tensor vals shape =
     (if (\<exists>d \<in> set shape. d < 0) \<or> sizeFromShape shape \<noteq> int (length vals)
      then Inl TensorShapeInvalid
      else Inr \<lparr> tensor_values = vals, tensor_shape = shape \<rparr>)"

definition getInputTensorFromFrequencyData :: "jsnum list \<Rightarrow> int list \<Rightarrow> error + tensor" where
  "getInputTensorFromFrequencyData freqData shape =
     (case Float32Array_new (sizeFromShape shape) of
        Inl e \<Rightarrow> Inl e
      | Inr vals \<Rightarrow>
          (case typed_array_set vals freqData (int (length vals) - int (length freqData)) of
             Inl e \<Rightarrow> Inl e
           | Inr vals' \<Rightarrow> tf_tensor vals' shape))"

section \<open>BrowserFftFeatureExtractor\<close>

datatype outcome = Returned | Threw error

datatype timer = Timer
datatype context_state = Running | Closed
datatype track_state = Live | Ended

record analyser_node =
  analyser_fftSize :: int
  smoothingTimeConstant :: real
  connected :: bool

text \<open>
  The configuration object. A field that the constructor defaults with \<open>||\<close> or tests
  with \<open>== null\<close> may be missing (\<open>None\<close>); \<open>includeRawAudio\<close> missing is
  \<open>False\<close>; the other numbers are taken to be given. The callback is a function of the state it closes over (\<open>'s\<close>: in
  \<open>script.js\<close> the prediction counters), the frequency tensor and the optional
  time-domain tensor; it returns \<open>shouldRest\<close> and its new state.
\<close>

record 's config =
  config_spectrogramCallback :: "('s \<Rightarrow> tensor \<Rightarrow> tensor option \<Rightarrow> bool \<times> 's) option"
  config_numFramesPerSpectrogram :: int
  config_suppressionTimeMillis :: real
  config_sampleRateHz :: "int option"
  config_fftSize :: "int option"
  config_columnTruncateLength :: "int option"
  config_overlapFactor :: real
  config_includeRawAudio :: bool

text \<open>
  The object. The fields that \<open>start\<close> assigns are \<open>undefined\<close> (\<open>None\<close>) before;
  \<open>audioContext\<close> and \<open>stream\<close> are read by \<open>stop\<close> and assigned nowhere in
  the class. \<open>callbackState\<close> is the state of the callback's closure, kept here so
  that an invocation of the callback is visible.
\<close>

record 's extractor =
  suppressionTimeMillis :: real
  spectrogramCallback :: "'s \<Rightarrow> tensor \<Rightarrow> tensor option \<Rightarrow> bool \<times> 's"
  numFrames :: int
  sampleRateHz :: int
  fftSize :: int
  frameDurationMillis :: real
  columnTruncateLength :: int
  overlapFactor :: real
  includeRawAudio :: bool
  analyser :: "analyser_node option"
  freqDataQueue :: "jsnum list list option"
  timeDataQueue :: "jsnum list list option"
  tracker :: "tracker option"
  frameIntervalTask :: "timer option"
  audioContext :: "context_state option"
  stream :: "track_state list option"
  callbackState :: 's

text \<open>\<open>x || d\<close> on an optional number: \<open>d\<close> when \<open>x\<close> is missing or zero.\<close>

definition or_default :: "int option \<Rightarrow> int \<Rightarrow> int" where
  "or_default x d = (case x of None \<Rightarrow> d | Some v \<Rightarrow> if v = 0 then d else v)"

text \<open>
  The constructor, its checks in the order of the source. The frame duration is a
  quotient and a product of doubles, each rounded.
\<close>

definition BrowserFftFeatureExtractor_constructor ::
  "'s config option \<Rightarrow> 's \<Rightarrow> error + 's extractor" where
  "BrowserFftFeatureExtractor_constructor config s0 =
     (case config of
        None \<Rightarrow> Inl ConfigMissing
      | Some c \<Rightarrow>
         (case config_spectrogramCallback c of
            None \<Rightarrow> Inl CallbackMissing
          | Some cb \<Rightarrow>
             if config_numFramesPerSpectrogram c \<le> 0 then Inl InvalidNumFrames
             else if config_suppressionTimeMillis c < 0 then Inl NegativeSuppressionTime
             else
               (let rate = or_default (config_sampleRateHz c) 44100;
                    fft = or_default (config_fftSize c) 1024;
                    this = \<lparr> suppressionTimeMillis = config_suppressionTimeMillis c,
                             spectrogramCallback = cb,
                             numFrames = config_numFramesPerSpectrogram c,
                             sampleRateHz = rate,
                             fftSize = fft,
                             frameDurationMillis =
                               fl64 (fl64 (real_of_int fft / real_of_int rate) * 1000),
                             columnTruncateLength = or_default (config_columnTruncateLength c) fft,
                             overlapFactor = config_overlapFactor c,
                             includeRawAudio = config_includeRawAudio c,
                             analyser = None,
                             freqDataQueue = None,
                             timeDataQueue = None,
                             tracker = None,
                             frameIntervalTask = None,
                             audioContext = None,
                             stream = None,
                             callbackState = s0 \<rparr>
                in if \<not> (overlapFactor this \<ge> 0 \<and> overlapFactor this < 1)
                   then Inl OverlapFactorOutOfRange
                   else if columnTruncateLength this > fftSize this
                   then Inl TruncateLengthExceedsFftSize
                   else Inr this)))"

text \<open>
  \<open>start\<close>. The node handed in is a plain object whose two properties are assigned.
  Allocating the sample buffers (\<open>new Float32Array(this.fftSize)\<close>) is a
  \<open>RangeError\<close> for a negative \<open>fftSize\<close>. The period and the suppression time
  are rounded from products and quotients of doubles, each itself rounded; the quotient
  is taken to stay finite. \<open>setInterval\<close> hands back the timer that from now on calls
  \<open>onAudioFrame\<close> once per frame duration.
\<close>

definition start :: "'s extractor \<Rightarrow> analyser_node \<Rightarrow> outcome \<times> 's extractor" where
  "start this audioNode =
     (if frameIntervalTask this \<noteq> None then (Threw AlreadyStarted, this)
      else
        (let this1 = this\<lparr> analyser := Some (audioNode\<lparr> analyser_fftSize := fftSize this * 2,
                                                         smoothingTimeConstant := 0 \<rparr>),
                            freqDataQueue := Some [] \<rparr>
         in case Float32Array_new (fftSize this1) of
              Inl e \<Rightarrow> (Threw e, this1)
            | Inr _ \<Rightarrow>
               (let this2 = (if includeRawAudio this1
                             then this1\<lparr> timeDataQueue := Some [] \<rparr> else this1);
                    p = max 1 (Math_round (fl64 (real_of_int (numFrames this2)
                                                 * fl64 (1 - overlapFactor this2))))
                in case Tracker_constructor p
                          (Some (Math_round (fl64 (suppressionTimeMillis this2
                                                   / frameDurationMillis this2)))) of
                     Inl e \<Rightarrow> (Threw e, this2)
                   | Inr t \<Rightarrow>
                      (Returned, this2\<lparr> tracker := Some t,
                                        frameIntervalTask := Some Timer \<rparr>))))"

text \<open>The silence test of \<open>onAudioFrame\<close>: \<open>this.freqData[0] === -Infinity\<close>.\<close>

definition silent :: "jsnum list \<Rightarrow> bool" where
  "silent freqData = (case freqData of [] \<Rightarrow> False | x # _ \<Rightarrow> x = NegInfinity)"

text \<open>
  The time-domain tensor of a firing tick: built only with \<open>includeRawAudio\<close>.
\<close>

definition timeDataTensor_of :: "'s extractor \<Rightarrow> error + tensor option" where
  "timeDataTensor_of this =
     (if includeRawAudio this then
        (case timeDataQueue this of
           None \<Rightarrow> Inl TypeError
         | Some tq \<Rightarrow>
            (case flattenQueue tq of
               Inl e \<Rightarrow> Inl e
             | Inr timeData \<Rightarrow>
                (case getInputTensorFromFrequencyData timeData
                        [1, numFrames this * fftSize this] of
                   Inl e \<Rightarrow> Inl e
                 | Inr tt \<Rightarrow> Inr (Some tt))))
      else Inr None)"

text \<open>
  One sampling tick. The two arguments are what the analyser writes into the buffers
  \<open>this.freqData\<close> and \<open>this.timeData\<close> on this tick (the second is read only with
  \<open>includeRawAudio\<close>); both buffers are overwritten before they are read, so they are
  not part of the state. The callback is taken to finish within the tick. An exception
  leaves the object as it was mutated up to the throw.
\<close>

definition onAudioFrame ::
  "'s extractor \<Rightarrow> jsnum list \<Rightarrow> jsnum list \<Rightarrow> outcome \<times> 's extractor" where
  "onAudioFrame this freqData timeData =
     (if silent freqData then (Returned, this)
      else
        (case freqDataQueue this of
           None \<Rightarrow> (Threw TypeError, this)
         | Some q \<Rightarrow>
            (let q1 = q @ [slice0 freqData (columnTruncateLength this)];
                 this1 = this\<lparr> freqDataQueue := Some q1 \<rparr>
             in if includeRawAudio this1 \<and> timeDataQueue this1 = None
                then (Threw TypeError, this1)
                else
                  (let this2 =
                         (if includeRawAudio this1
                          then this1\<lparr> timeDataQueue :=
                                        map_option (\<lambda>tq. tq @ [timeData]) (timeDataQueue this1) \<rparr>
                          else this1);
                       q2 = (if int (length q1) > numFrames this2 then tl q1 else q1);
                       this3 = this2\<lparr> freqDataQueue := Some q2 \<rparr>
                   in case tracker this3 of
                        None \<Rightarrow> (Threw TypeError, this3)
                      | Some t \<Rightarrow>
                         (let shouldFire = fst (Tracker_tick t);
                              t' = snd (Tracker_tick t);
                              this4 = this3\<lparr> tracker := Some t' \<rparr>
                          in if shouldFire then
                               (case flattenQueue q2 of
                                  Inl e \<Rightarrow> (Threw e, this4)
                                | Inr fd \<Rightarrow>
                                   (case getInputTensorFromFrequencyData fd
                                           [1, numFrames this4, columnTruncateLength this4, 1] of
                                      Inl e \<Rightarrow> (Threw e, this4)
                                    | Inr freqDataTensor \<Rightarrow>
                                       (case timeDataTensor_of this4 of
                                          Inl e \<Rightarrow> (Threw e, this4)
                                        | Inr timeDataTensor \<Rightarrow>
                                           (let r = spectrogramCallback this4 (callbackState this4)
                                                      freqDataTensor timeDataTensor;
                                                this5 = this4\<lparr> callbackState := snd r \<rparr>
                                            in (Returned,
                                                if fst r
                                                then this5\<lparr> tracker := Some (Tracker_suppress t') \<rparr>
                                                else this5)))))
                             else (Returned, this4))))))"

text \<open>
  The timer calls \<open>onAudioFrame\<close> once per sample; an exception of one tick does not
  stop the timer, so the next tick starts from the object as the last one left it.
\<close>

definition onAudioFrames ::
  "'s extractor \<Rightarrow> (jsnum list \<times> jsnum list) list \<Rightarrow> 's extractor" where
  "onAudioFrames this samples =
     foldl (\<lambda>st (freqData, timeData). snd (onAudioFrame st freqData timeData)) this samples"

text \<open>
  \<open>stop\<close>. \<open>this.audioContext.close()\<close> on a missing \<open>audioContext\<close> is a
  \<open>TypeError\<close>, raised after the timer was cleared and the analyser disconnected.
\<close>

definition stop :: "'s extractor \<Rightarrow> outcome \<times> 's extractor" where
  "stop this =
     (if frameIntervalTask this = None then (Threw NotStreaming, this)
      else
        (let this1 = this\<lparr> frameIntervalTask := None \<rparr>
         in case analyser this1 of
              None \<Rightarrow> (Threw TypeError, this1)
            | Some a \<Rightarrow>
               (let this2 = this1\<lparr> analyser := Some (a\<lparr> connected := False \<rparr>) \<rparr>
                in case audioContext this2 of
                     None \<Rightarrow> (Threw TypeError, this2)
                   | Some ctx \<Rightarrow>
                      (let this3 = this2\<lparr> audioContext := Some Closed \<rparr>
                       in case stream this3 of
                            None \<Rightarrow> (Returned, this3)
                          | Some tracks \<Rightarrow>
                             (if length tracks > 0
                              then (Returned, this3\<lparr> stream := Some (tracks[0 := Ended]) \<rparr>)
                              else (Returned, this3))))))"

section \<open>Score aggregation\<close>

text \<open>
  The globals that the callback of \<open>init\<close> and \<open>showMP3Result\<close> share:
  \<open>predictionCounter\<close>, \<open>predictionSumArray\<close> (a \<open>Float32Array(5)\<close>; its
  elements are taken to be finite) and \<open>isProcess\<close>.
\<close>

record aggregate =
  predictionCounter :: nat
  predictionSumArray :: "real list"
  isProcess :: bool

text \<open>
  What \<open>showMP3Result\<close> shows: the value \<open>t\<close> written beside each label, the
  array \<open>diagnosesArray\<close>, the index \<open>i\<close> it picks and the message of the result
  label, which is either the fixed "no pathology" text or the text built around
  \<open>diagnoses[i]\<close> (\<open>None\<close> when that is \<open>undefined\<close>).
\<close>

datatype verdict = NoPathologyDetected | ProbablePathology "string option"

record mp3_result =
  label_values :: "jsnum list"
  diagnosesArray :: "jsnum list"
  best_index :: int
  result_label :: verdict

text \<open>The five diagnosis names of the source, in English.\<close>

definition diagnoses :: "string list" where
  "diagnoses = [''Aortic regurgitation'', ''Aortic stenosis'', ''Mitral regurgitation'',
                ''Mitral stenosis'', ''No abnormality detected'']"

text \<open>
  Reading an array at an index: \<open>undefined\<close> out of range. Writing a typed array at
  an index: nothing happens out of range.
\<close>

definition array_get :: "'a list \<Rightarrow> int \<Rightarrow> 'a option" where
  "array_get xs i = (if 0 \<le> i \<and> i < int (length xs) then Some (xs ! nat i) else None)"

definition array_put :: "'a list \<Rightarrow> nat \<Rightarrow> 'a \<Rightarrow> 'a list" where
  "array_put xs i v = (if i < length xs then xs[i := v] else xs)"

text \<open>
  \<open>x.toFixed(3)\<close>, by the value of the decimal string: the double \<open>x\<close> to three
  decimals, a tie rounded away from zero; \<open>NaN\<close> and the infinities print as
  themselves. Storing the string into a \<open>Float32Array\<close> reads it back as a double
  and rounds that to 32 bits.
\<close>

fun toFixed3 :: "jsnum \<Rightarrow> jsnum" where
  "toFixed3 (Fin x) =
     Fin (if x < 0 then - (real_of_int \<lfloor>(- x) * 1000 + 1 / 2\<rfloor> / 1000)
          else real_of_int \<lfloor>x * 1000 + 1 / 2\<rfloor> / 1000)"
| "toFixed3 v = v"

definition store32 :: "jsnum \<Rightarrow> jsnum" where
  "store32 v =
     (case v of
        Fin x \<Rightarrow> (case double_of x of Fin d \<Rightarrow> float32_of d | w \<Rightarrow> w)
      | w \<Rightarrow> w)"

text \<open>\<open>Math.max(...xs)\<close>: \<open>NaN\<close> as soon as one argument is, \<open>-Infinity\<close> of none.\<close>

fun js_max :: "jsnum \<Rightarrow> jsnum \<Rightarrow> jsnum" where
  "js_max NaN _ = NaN"
| "js_max _ NaN = NaN"
| "js_max PosInfinity _ = PosInfinity"
| "js_max _ PosInfinity = PosInfinity"
| "js_max NegInfinity y = y"
| "js_max x NegInfinity = x"
| "js_max (Fin a) (Fin b) = Fin (max a b)"

definition Math_max :: "jsnum list \<Rightarrow> jsnum" where
  "Math_max xs = foldl js_max NegInfinity xs"

text \<open>
  \<open>xs.indexOf(v)\<close> compares with \<open>===\<close>, under which \<open>NaN\<close> equals nothing;
  \<open>-1\<close> when no element matches.
\<close>

definition js_strict_eq :: "jsnum \<Rightarrow> jsnum \<Rightarrow> bool" where
  "js_strict_eq x y = (x \<noteq> NaN \<and> y \<noteq> NaN \<and> x = y)"

fun indexOf_from :: "jsnum list \<Rightarrow> jsnum \<Rightarrow> int \<Rightarrow> int" where
  "indexOf_from [] v i = - 1"
| "indexOf_from (x # xs) v i = (if js_strict_eq x v then i else indexOf_from xs v (i + 1))"

definition indexOf :: "jsnum list \<Rightarrow> jsnum \<Rightarrow> int" where
  "indexOf xs v = indexOf_from xs v 0"

text \<open>
  The \<open>t\<close> of label \<open>i\<close>: \<open>(predictionSumArray[i] / predictionCounter).toFixed(3)\<close>.
\<close>

definition mean_label :: "aggregate \<Rightarrow> nat \<Rightarrow> jsnum" where
  "mean_label a i =
     toFixed3 (case array_get (predictionSumArray a) (int i) of
                 None \<Rightarrow> NaN
               | Some s \<Rightarrow> js_div s (real (predictionCounter a)))"

text \<open>
  \<open>showMP3Result\<close>; its argument is \<open>labelContainer.childElementCount\<close>, the number
  of labels both loops run over.
\<close>

definition showMP3Result :: "nat \<Rightarrow> aggregate \<Rightarrow> mp3_result \<times> aggregate" where
  "showMP3Result childElementCount a =
     (let ts = map (mean_label a) [0..<childElementCount];
          diagnosesArray = foldl (\<lambda>arr i. array_put arr i (store32 (ts ! i)))
                             (replicate 5 (Fin 0)) [0..<childElementCount];
          i = indexOf diagnosesArray (Math_max diagnosesArray);
          label = (if i = 4 then NoPathologyDetected
                   else ProbablePathology (array_get diagnoses i))
      in (\<lparr> label_values = ts, diagnosesArray = diagnosesArray,
             best_index = i, result_label = label \<rparr>,
          a\<lparr> predictionCounter := 0,
              predictionSumArray :=
                foldl (\<lambda>arr i. array_put arr i 0) (predictionSumArray a)
                  [0..<childElementCount],
              isProcess := False \<rparr>))"

text \<open>The globals as \<open>init\<close> leaves them: no recording yet.\<close>

definition init_aggregate :: aggregate where
  "init_aggregate = \<lparr> predictionCounter = 0, predictionSumArray = replicate 5 0,
                       isProcess = False \<rparr>"

section \<open>Histories and windows\<close>

text \<open>A sequence of calls on one tracker, the results of \<open>tick()\<close> dropped.\<close>

datatype tracker_call = Tick | Suppress

fun Tracker_call :: "tracker \<Rightarrow> tracker_call \<Rightarrow> tracker" where
  "Tracker_call t Tick = snd (Tracker_tick t)"
| "Tracker_call t Suppress = Tracker_suppress t"

definition Tracker_calls :: "tracker \<Rightarrow> tracker_call list \<Rightarrow> tracker" where
  "Tracker_calls t cs = foldl Tracker_call t cs"

text \<open>
  The history of a tracker in the specification's words: the number of ticks made so far,
  and the tick count at which the last \<open>suppress()\<close> was called, if there was one.
\<close>

definition ticks_made :: "tracker_call list \<Rightarrow> int" where
  "ticks_made cs = int (length (filter (\<lambda>c. c = Tick) cs))"

fun last_onset :: "tracker_call list \<Rightarrow> int option" where
  "last_onset [] = None"
| "last_onset (c # cs) =
     (case last_onset cs of
        Some n \<Rightarrow> Some (n + (if c = Tick then 1 else 0))
      | None \<Rightarrow> (if c = Suppress then Some 0 else None))"

definition spec_fires :: "int \<Rightarrow> int \<Rightarrow> tracker_call list \<Rightarrow> bool" where
  "spec_fires P S cs =
     ((ticks_made cs + 1) mod P = 0 \<and>
      (case last_onset cs of
         None \<Rightarrow> True
       | Some onset \<Rightarrow> ticks_made cs + 1 - onset > S))"

text \<open>
  The window of a queue of capacity \<open>n\<close>: the most recent \<open>n\<close> of the frames pushed.
  One push followed by the conditional \<open>shift()\<close> of \<open>onAudioFrame\<close> is
  \<open>push_shift\<close>. The frames that a run of ticks pushes are the samples that are not
  silent, each cut to the truncate length; with raw audio, the time-domain samples of
  the same ticks are pushed too.
\<close>

definition last_frames :: "int \<Rightarrow> 'a list \<Rightarrow> 'a list" where
  "last_frames n xs = drop (length xs - nat n) xs"

definition push_shift :: "int \<Rightarrow> 'a list \<Rightarrow> 'a \<Rightarrow> 'a list" where
  "push_shift n q x = (if int (length (q @ [x])) > n then tl (q @ [x]) else q @ [x])"

definition pushed_frames :: "int \<Rightarrow> (jsnum list \<times> jsnum list) list \<Rightarrow> jsnum list list" where
  "pushed_frames c samples =
     map (\<lambda>f. slice0 f c) (filter (\<lambda>f. \<not> silent f) (map fst samples))"

definition pushed_time_frames :: "(jsnum list \<times> jsnum list) list \<Rightarrow> jsnum list list" where
  "pushed_time_frames samples = map snd (filter (\<lambda>s. \<not> silent (fst s)) samples)"

text \<open>
  The frames of a queue right-aligned in a zero tensor of shape \<open>[1, n, c, 1]\<close>.
\<close>

definition window_tensor :: "int \<Rightarrow> int \<Rightarrow> jsnum list list \<Rightarrow> tensor" where
  "window_tensor n c q =
     \<lparr> tensor_values = replicate (nat (n * c) - length (concat q)) (Fin 0) @ concat q,
       tensor_shape = [1, n, c, 1] \<rparr>"

text \<open>The period and the tracker that \<open>start\<close> computes.\<close>

definition start_period :: "'s extractor \<Rightarrow> int" where
  "start_period e =
     max 1 (Math_round (fl64 (real_of_int (numFrames e) * fl64 (1 - overlapFactor e))))"

definition start_tracker :: "'s extractor \<Rightarrow> tracker" where
  "start_tracker e = \<lparr> period = start_period e,
      suppressionTime = Math_round (fl64 (suppressionTimeMillis e / frameDurationMillis e)),
      counter = 0, suppressionOnset = None \<rparr>"

section \<open>A streaming scenario\<close>

text \<open>
  The end-to-end scenario of the specification: 40 frames per spectrogram and an overlap
  of one half, so a period of 20. The callback never asks for a rest and keeps the
  tensors it is handed. Each sample has four bins, of which two are kept.
  \<open>scenario_idle\<close> is the object the constructor builds and \<open>scenario_streaming\<close>
  the one \<open>start\<close> leaves.
\<close>

definition logging_callback :: "tensor list \<Rightarrow> tensor \<Rightarrow> tensor option \<Rightarrow> bool \<times> tensor list" where
  "logging_callback seen freqDataTensor timeDataTensor = (False, seen @ [freqDataTensor])"

definition scenario_config :: "tensor list config" where
  "scenario_config =
     \<lparr> config_spectrogramCallback = Some logging_callback,
       config_numFramesPerSpectrogram = 40,
       config_suppressionTimeMillis = 0,
       config_sampleRateHz = Some 44100,
       config_fftSize = Some 4,
       config_columnTruncateLength = Some 2,
       config_overlapFactor = 1 / 2,
       config_includeRawAudio = False \<rparr>"

definition scenario_node :: analyser_node where
  "scenario_node = \<lparr> analyser_fftSize = 2048, smoothingTimeConstant = 4 / 5, connected = True \<rparr>"

definition scenario_idle :: "tensor list extractor" where
  "scenario_idle =
     \<lparr> suppressionTimeMillis = 0,
       spectrogramCallback = logging_callback,
       numFrames = 40,
       sampleRateHz = 44100,
       fftSize = 4,
       frameDurationMillis = fl64 (fl64 (4 / 44100) * 1000),
       columnTruncateLength = 2,
       overlapFactor = 1 / 2,
       includeRawAudio = False,
       analyser = None,
       freqDataQueue = None,
       timeDataQueue = None,
       tracker = None,
       frameIntervalTask = None,
       audioContext = None,
       stream = None,
       callbackState = [] \<rparr>"

definition scenario_streaming :: "tensor list extractor" where
  "scenario_streaming =
     scenario_idle
       \<lparr> analyser := Some \<lparr> analyser_fftSize = 8, smoothingTimeConstant = 0, connected = True \<rparr>,
         freqDataQueue := Some [],
         tracker := Some \<lparr> period = 20, suppressionTime = 0, counter = 0,
                           suppressionOnset = None \<rparr>,
         frameIntervalTask := Some Timer \<rparr>"

definition scenario_sample :: "jsnum list \<times> jsnum list" where
  "scenario_sample = ([Fin 1, Fin 2, Fin 3, Fin 4], [])"

section \<open>A streaming scenario with raw audio\<close>

text \<open>
  One frame per spectrogram, so a period of 1, with \<open>includeRawAudio\<close>. Each sample
  has two frequency bins, of which one is kept, and two time-domain values.
  \<open>raw_after_first_tick\<close> is the object after the first tick.
\<close>

definition raw_config :: "tensor list config" where
  "raw_config =
     \<lparr> config_spectrogramCallback = Some logging_callback,
       config_numFramesPerSpectrogram = 1,
       config_suppressionTimeMillis = 0,
       config_sampleRateHz = Some 44100,
       config_fftSize = Some 2,
       config_columnTruncateLength = Some 1,
       config_overlapFactor = 0,
       config_includeRawAudio = True \<rparr>"

definition raw_idle :: "tensor list extractor" where
  "raw_idle =
     \<lparr> suppressionTimeMillis = 0,
       spectrogramCallback = logging_callback,
       numFrames = 1,
       sampleRateHz = 44100,
       fftSize = 2,
       frameDurationMillis = fl64 (fl64 (2 / 44100) * 1000),
       columnTruncateLength = 1,
       overlapFactor = 0,
       includeRawAudio = True,
       analyser = None,
       freqDataQueue = None,
       timeDataQueue = None,
       tracker = None,
       frameIntervalTask = None,
       audioContext = None,
       stream = None,
       callbackState = [] \<rparr>"

definition raw_streaming :: "tensor list extractor" where
  "raw_streaming =
     raw_idle
       \<lparr> analyser := Some \<lparr> analyser_fftSize = 4, smoothingTimeConstant = 0, connected = True \<rparr>,
         freqDataQueue := Some [],
         timeDataQueue := Some [],
         tracker := Some \<lparr> period = 1, suppressionTime = 0, counter = 0,
                           suppressionOnset = None \<rparr>,
         frameIntervalTask := Some Timer \<rparr>"

definition raw_sample :: "jsnum list \<times> jsnum list" where
  "raw_sample = ([Fin 1, Fin 2], [Fin 3, Fin 4])"

definition raw_after_first_tick :: "tensor list extractor" where
  "raw_after_first_tick =
     raw_streaming
       \<lparr> freqDataQueue := Some [[Fin 1]],
         timeDataQueue := Some [[Fin 3, Fin 4]],
         tracker := Some \<lparr> period = 1, suppressionTime = 0, counter = 1,
                           suppressionOnset = None \<rparr>,
         callbackState := [\<lparr> tensor_values = [Fin 1], tensor_shape = [1, 1, 1, 1] \<rparr>] \<rparr>"

section \<open>Properties of the Tracker\<close>

lemma js_rem_nonneg: "0 \<le> a \<Longrightarrow> 0 < b \<Longrightarrow> js_rem a b = Some (a mod b)"
  by (cases "a = 0") (simp_all add: js_rem_def)

lemma Tracker_call_period [simp]: "period (Tracker_call t c) = period t"
  by (cases c) (simp_all add: Tracker_tick_def Tracker_suppress_def Let_def)

lemma Tracker_call_suppressionTime [simp]:
  "suppressionTime (Tracker_call t c) = suppressionTime t"
  by (cases c) (simp_all add: Tracker_tick_def Tracker_suppress_def Let_def)

lemma Tracker_calls_snoc: "Tracker_calls t (cs @ [c]) = Tracker_call (Tracker_calls t cs) c"
  by (simp add: Tracker_calls_def)

lemma ticks_made_snoc:
  "ticks_made (cs @ [c]) = ticks_made cs + (if c = Tick then 1 else 0)"
  by (simp add: ticks_made_def)

lemma last_onset_snoc:
  "last_onset (cs @ [c]) =
     (if c = Suppress then Some (ticks_made cs) else last_onset cs)"
proof (induction cs)
  case Nil
  then show ?case by (cases c) (simp_all add: ticks_made_def)
next
  case (Cons d ds)
  then show ?case
    by (cases c; cases d) (simp_all add: ticks_made_def split: option.splits)
qed

lemma Tracker_calls_state:
  assumes "counter t = 0" and "suppressionOnset t = None"
  shows "period (Tracker_calls t cs) = period t
       \<and> suppressionTime (Tracker_calls t cs) = suppressionTime t
       \<and> counter (Tracker_calls t cs) = ticks_made cs
       \<and> suppressionOnset (Tracker_calls t cs) = last_onset cs"
proof (induction cs rule: rev_induct)
  case Nil
  show ?case using assms by (simp add: Tracker_calls_def ticks_made_def)
next
  case (snoc c cs)
  show ?case
  proof (cases c)
    case Tick
    with snoc show ?thesis
      by (simp add: Tracker_calls_snoc ticks_made_snoc last_onset_snoc
          Tracker_tick_def Let_def)
  next
    case Suppress
    with snoc show ?thesis
      by (simp add: Tracker_calls_snoc ticks_made_snoc last_onset_snoc
          Tracker_suppress_def)
  qed
qed

lemma ticks_made_nonneg: "0 \<le> ticks_made cs"
  by (simp add: ticks_made_def)

text \<open>
  C2. For every period \<open>P > 0\<close> and suppression duration \<open>S\<close>, after any sequence of
  \<open>tick()\<close> and \<open>suppress()\<close> calls on a freshly constructed tracker, the next
  \<open>tick()\<close> returns true exactly when the incremented counter is a multiple of \<open>P\<close>
  and either no \<open>suppress()\<close> has been recorded or the ticks elapsed since the last
  recorded onset strictly exceed \<open>S\<close>.
\<close>

theorem Tracker_tick_fires_iff:
  assumes "P > 0" and "S \<ge> 0"
  shows "\<exists>t. Tracker_constructor P (Some S) = Inr t
           \<and> fst (Tracker_tick (Tracker_calls t cs)) = spec_fires P S cs"
proof -
  define t where "t = \<lparr> period = P, suppressionTime = S, counter = 0,
                        suppressionOnset = None \<rparr>"
  have ctor: "Tracker_constructor P (Some S) = Inr t"
    using assms(1) by (simp add: Tracker_constructor_def t_def)
  have st: "period (Tracker_calls t cs) = P"
           "suppressionTime (Tracker_calls t cs) = S"
           "counter (Tracker_calls t cs) = ticks_made cs"
           "suppressionOnset (Tracker_calls t cs) = last_onset cs"
    using Tracker_calls_state [of t cs] by (simp_all add: t_def)
  have rem: "js_rem (ticks_made cs + 1) P = Some ((ticks_made cs + 1) mod P)"
    using assms(1) ticks_made_nonneg [of cs] by (intro js_rem_nonneg) simp_all
  have "fst (Tracker_tick (Tracker_calls t cs)) = spec_fires P S cs"
    by (simp add: Tracker_tick_def Let_def st rem spec_fires_def split: option.split)
  with ctor show ?thesis by blast
qed

text \<open>
  The example of the specification: period 3, suppression 2, \<open>suppress()\<close> called at
  tick 3. Ticks 4 and 5 do not fire, tick 6 does.
\<close>

theorem Tracker_tick_fires_iff_witness:
  "(3::int) > 0 \<and> (2::int) \<ge> 0
   \<and> (\<exists>t. Tracker_constructor 3 (Some 2) = Inr t
        \<and> fst (Tracker_tick (Tracker_calls t [Tick, Tick])) = True
        \<and> fst (Tracker_tick (Tracker_calls t [Tick, Tick, Tick, Suppress])) = False
        \<and> fst (Tracker_tick (Tracker_calls t [Tick, Tick, Tick, Suppress, Tick])) = False
        \<and> fst (Tracker_tick (Tracker_calls t [Tick, Tick, Tick, Suppress, Tick, Tick])) = True)"
  using Tracker_tick_fires_iff [of 3 2 "[Tick, Tick]"]
    Tracker_tick_fires_iff [of 3 2 "[Tick, Tick, Tick, Suppress]"]
    Tracker_tick_fires_iff [of 3 2 "[Tick, Tick, Tick, Suppress, Tick]"]
    Tracker_tick_fires_iff [of 3 2 "[Tick, Tick, Tick, Suppress, Tick, Tick]"]
  by (auto simp add: spec_fires_def ticks_made_def)

text \<open>
  C3, as the code has it. The constructor of the Tracker raises exactly when the period
  is not positive. It does not look at the sign of the suppression duration: a negative
  one is stored as it is.
\<close>

theorem Tracker_constructor_raises_iff:
  "(Tracker_constructor p s = Inl PeriodNotPositive) = (p \<le> 0)
   \<and> (p > 0 \<longrightarrow>
        Tracker_constructor p s =
          Inr \<lparr> period = p, suppressionTime = (case s of None \<Rightarrow> 0 | Some d \<Rightarrow> d),
                counter = 0, suppressionOnset = None \<rparr>)
   \<and> invalid_argument PeriodNotPositive"
  by (simp add: Tracker_constructor_def invalid_argument_def)

theorem Tracker_constructor_raises_iff_witness:
  "Tracker_constructor 0 (Some 0) = Inl PeriodNotPositive
   \<and> Tracker_constructor 5 (Some 2) =
       Inr \<lparr> period = 5, suppressionTime = 2, counter = 0, suppressionOnset = None \<rparr>"
  using Tracker_constructor_raises_iff [of 0 "Some 0"]
    Tracker_constructor_raises_iff [of 5 "Some 2"]
  by simp

text \<open>
  C3, as the claim states it, fails: a tracker with period 1 and suppression duration
  \<open>-1\<close> is constructed without an error.
\<close>

theorem Tracker_constructor_negative_suppression_counterexample:
  "Tracker_constructor 1 (Some (- 1)) =
     Inr \<lparr> period = 1, suppressionTime = - 1, counter = 0, suppressionOnset = None \<rparr>"
  by (simp add: Tracker_constructor_def)

section \<open>Properties of flattening and of the feature tensor\<close>

lemma typed_array_set_fits:
  "off + length src \<le> length target \<Longrightarrow>
   typed_array_set target src (int off) = Inr (take off target @ src @ drop (off + length src) target)"
  by (simp add: typed_array_set_def)

lemma flattenQueue_forEach_concat:
  "\<forall>f \<in> set rest. length f = W \<Longrightarrow> length buf = (k + length rest) * W \<Longrightarrow>
   flattenQueue_forEach W (enumerate k rest) buf = Inr (take (k * W) buf @ concat rest)"
proof (induction rest arbitrary: k buf)
  case Nil
  then show ?case by simp
next
  case (Cons data rest)
  have w: "length data = W" and rest: "\<forall>f \<in> set rest. length f = W"
    using Cons.prems(1) by simp_all
  have len: "length buf = k * W + W + length rest * W"
    using Cons.prems(2) by (simp add: algebra_simps)
  define buf' where "buf' = take (k * W) buf @ data @ drop (k * W + W) buf"
  have set_ok: "typed_array_set buf data (int (k * W)) = Inr buf'"
    using typed_array_set_fits [of "k * W" data buf] len w by (simp add: buf'_def)
  have len': "length buf' = (Suc k + length rest) * W"
    using len w by (simp add: buf'_def algebra_simps)
  have take': "take (Suc k * W) buf' = take (k * W) buf @ data"
    using len w by (simp add: buf'_def algebra_simps)
  have "flattenQueue_forEach W (enumerate k (data # rest)) buf =
        flattenQueue_forEach W (enumerate (Suc k) rest) buf'"
    using set_ok by simp
  also have "\<dots> = Inr (take (Suc k * W) buf' @ concat rest)"
    using Cons.IH [OF rest len'] .
  finally show ?case using take' by simp
qed

lemma flattenQueue_uniform:
  assumes "queue \<noteq> []" and "\<forall>f \<in> set queue. length f = W"
  shows "flattenQueue queue = Inr (concat queue)"
proof -
  obtain q0 qs where q: "queue = q0 # qs" using assms(1) by (cases queue) auto
  have w0: "length q0 = W" using assms(2) q by simp
  have "flattenQueue_forEach W (enumerate 0 queue) (replicate (length queue * W) (Fin 0))
        = Inr (take (0 * W) (replicate (length queue * W) (Fin 0)) @ concat queue)"
    using assms(2) by (intro flattenQueue_forEach_concat) simp_all
  then show ?thesis
    by (simp add: flattenQueue_def q w0 del: enumerate_simps)
qed

lemma length_concat_uniform:
  "\<forall>f \<in> set queue. length f = W \<Longrightarrow> length (concat queue) = length queue * W"
  by (induction queue) simp_all

lemma getInputTensor_right_aligned:
  assumes "int (length freqData) \<le> sizeFromShape shape" and "\<forall>d \<in> set shape. 0 \<le> d"
  shows "getInputTensorFromFrequencyData freqData shape =
           Inr \<lparr> tensor_values = replicate (nat (sizeFromShape shape) - length freqData) (Fin 0) @ freqData,
                 tensor_shape = shape \<rparr>"
proof -
  define T where "T = nat (sizeFromShape shape)"
  have T: "sizeFromShape shape = int T" "length freqData \<le> T"
    using assms by (simp_all add: T_def)
  have "typed_array_set (replicate T (Fin 0)) freqData (int T - int (length freqData))
          = Inr (replicate (T - length freqData) (Fin 0) @ freqData)"
    using T(2) by (simp add: typed_array_set_def nat_diff_distrib' of_nat_diff)
  moreover have "tf_tensor (replicate (T - length freqData) (Fin 0) @ freqData) shape =
      Inr \<lparr> tensor_values = replicate (T - length freqData) (Fin 0) @ freqData,
            tensor_shape = shape \<rparr>"
    using T assms(2) by (auto simp add: tf_tensor_def)
  ultimately show ?thesis
    by (simp add: getInputTensorFromFrequencyData_def Float32Array_new_def T(1) T_def [symmetric])
qed




section \<open>Properties of the constructor, of start and of stop\<close>

lemma round_even_of_int [simp]: "round_even (of_int m) = m"
  by (simp add: round_even_def)

text \<open>
  A number that has no more than \<open>p\<close> significant bits is not changed by the rounding.
\<close>

lemma fl_exact:
  assumes "x \<noteq> 0" and "2 powr of_int e \<le> \<bar>x\<bar>" and "\<bar>x\<bar> < 2 powr of_int (e + 1)"
    and "emin \<le> e" and "x / 2 powr of_int (e - int p + 1) = of_int m"
  shows "fl p emin x = x"
proof -
  define u :: real where "u = 2 powr of_int (e - int p + 1)"
  have u: "0 < u" by (simp add: u_def)
  have xu: "x / u = of_int m" using assms(5) by (simp only: u_def)
  then have x: "x = of_int m * u" using u by (simp add: field_simps)
  have "\<lfloor>log 2 \<bar>x\<bar>\<rfloor> = e"
    using assms(1-3) by (subst floor_log_eq_powr_iff) simp_all
  then have "fl p emin x = of_int (round_even (x / u)) * u"
    using assms(1,4) by (simp add: fl_def Let_def max_def u_def)
  also have "\<dots> = x" unfolding xu using x by simp
  finally show ?thesis .
qed

lemma fl64_0: "fl64 0 = 0"
  by (simp add: fl64_def fl_def)

lemma fl64_half: "fl64 (1 / 2) = 1 / 2"
  unfolding fl64_def
  by (rule fl_exact [where e = "- 1" and m = "2 ^ 52"])
     (simp_all add: powr_minus divide_simps)

lemma fl64_1: "fl64 1 = 1"
  unfolding fl64_def
  by (rule fl_exact [where e = 0 and m = "2 ^ 52"])
     (simp_all add: powr_minus divide_simps)

lemma fl64_20: "fl64 20 = 20"
  unfolding fl64_def
  by (rule fl_exact [where e = 4 and m = "20 * 2 ^ 48"])
     (simp_all add: powr_minus divide_simps)

lemma fl_at_exponent:
  assumes "x \<noteq> 0" and "2 powr of_int e \<le> \<bar>x\<bar>" and "\<bar>x\<bar> < 2 powr of_int (e + 1)"
    and "emin \<le> e"
  shows "fl p emin x =
           of_int (round_even (x / 2 powr of_int (e - int p + 1)))
           * 2 powr of_int (e - int p + 1)"
proof -
  have "\<lfloor>log 2 \<bar>x\<bar>\<rfloor> = e"
    using assms(1-3) by (subst floor_log_eq_powr_iff) simp_all
  then show ?thesis
    using assms(1,4) by (simp add: fl_def Let_def max_def)
qed

text \<open>
  The double nearest to 0.1 is \<open>3602879701896397 / 2 ^ 55\<close>. With 5 frames and this
  overlap the rounded product is 4.5 and the period 5; the exact product is below 4.5.
\<close>

lemma fl64_one_minus_tenth:
  "fl64 (1 - 3602879701896397 / 2 ^ 55) = 8106479329266893 / 2 ^ 53"
proof -
  have "fl 53 (- 1022) (1 - 3602879701896397 / 2 ^ 55) =
      of_int (round_even ((1 - 3602879701896397 / 2 ^ 55) / 2 powr of_int (- 1 - int 53 + 1)))
      * 2 powr of_int (- 1 - int 53 + 1)"
    by (rule fl_at_exponent) (simp_all add: powr_minus divide_simps)
  also have "(1 - 3602879701896397 / 2 ^ 55) / 2 powr of_int (- 1 - int 53 + 1) =
      (32425917317067571 / 4 :: real)"
    by (simp add: powr_minus divide_simps)
  also have "round_even (32425917317067571 / 4) = 8106479329266893"
    by (simp add: round_even_def Let_def)
  finally show ?thesis
    by (simp add: fl64_def powr_minus divide_simps)
qed

lemma fl64_five_times:
  "fl64 (5 * (8106479329266893 / 2 ^ 53)) = 9 / 2"
proof -
  have "fl 53 (- 1022) (5 * (8106479329266893 / 2 ^ 53)) =
      of_int (round_even ((5 * (8106479329266893 / 2 ^ 53)) / 2 powr of_int (2 - int 53 + 1)))
      * 2 powr of_int (2 - int 53 + 1)"
    by (rule fl_at_exponent) (simp_all add: powr_minus divide_simps)
  also have "(5 * (8106479329266893 / 2 ^ 53)) / 2 powr of_int (2 - int 53 + 1) =
      (40532396646334465 / 8 :: real)"
    by (simp add: powr_minus divide_simps)
  also have "round_even (40532396646334465 / 8) = 5066549580791808"
    by (simp add: round_even_def Let_def)
  finally show ?thesis
    by (simp add: fl64_def powr_minus divide_simps)
qed

lemma start_period_rounds_doubles:
  assumes "numFrames e = 5" and "overlapFactor e = 3602879701896397 / 2 ^ 55"
  shows "start_period e = 5
       \<and> max 1 (Math_round (real_of_int (numFrames e) * (1 - overlapFactor e))) = 4"
proof -
  have "start_period e =
      max 1 (Math_round (fl64 (real_of_int 5 * fl64 (1 - 3602879701896397 / 2 ^ 55))))"
    unfolding start_period_def assms ..
  also have "\<dots> = max 1 (Math_round (fl64 (5 * (8106479329266893 / 2 ^ 53))))"
    by (simp only: fl64_one_minus_tenth of_int_numeral)
  also have "\<dots> = max 1 (Math_round (9 / 2))"
    by (simp only: fl64_five_times)
  also have "\<dots> = 5"
    by (simp add: Math_round_def)
  finally have "start_period e = 5" .
  moreover have "max 1 (Math_round (real_of_int (numFrames e) * (1 - overlapFactor e))) = 4"
    unfolding assms by (simp add: Math_round_def)
  ultimately show ?thesis by simp
qed

lemma constructor_Inr:
  assumes "BrowserFftFeatureExtractor_constructor (Some cfg) s0 = Inr e"
  shows "numFrames e > 0" and "frameIntervalTask e = None" and "audioContext e = None"
    and "columnTruncateLength e \<le> fftSize e" and "callbackState e = s0"
    and "includeRawAudio e = config_includeRawAudio cfg"
    and "config_spectrogramCallback cfg = Some (spectrogramCallback e)"
    and "numFrames e = config_numFramesPerSpectrogram cfg"
    and "overlapFactor e = config_overlapFactor cfg"
    and "analyser e = None" and "freqDataQueue e = None" and "tracker e = None"
  using assms
  by (auto simp add: BrowserFftFeatureExtractor_constructor_def Let_def
      split: option.splits if_splits)

lemma Tracker_constructor_pos:
  "p > 0 \<Longrightarrow> Tracker_constructor p (Some s) =
     Inr \<lparr> period = p, suppressionTime = s, counter = 0, suppressionOnset = None \<rparr>"
  by (simp add: Tracker_constructor_def)

lemma start_idle:
  assumes "frameIntervalTask e = None" and "0 \<le> fftSize e"
  shows "start e node =
    (Returned, e\<lparr> analyser := Some (node\<lparr> analyser_fftSize := fftSize e * 2,
                                             smoothingTimeConstant := 0 \<rparr>),
                  freqDataQueue := Some [],
                  timeDataQueue := (if includeRawAudio e then Some [] else timeDataQueue e),
                  tracker := Some (start_tracker e),
                  frameIntervalTask := Some Timer \<rparr>)"
proof -
  have p: "start_period e > 0" by (simp add: start_period_def)
  show ?thesis
    using assms Tracker_constructor_pos [OF p]
    by (simp add: start_def Float32Array_new_def Let_def start_tracker_def start_period_def)
qed

lemma onAudioFrame_silent: "silent f \<Longrightarrow> onAudioFrame this f td = (Returned, this)"
  by (simp add: onAudioFrame_def)

lemma onAudioFrame_no_raw:
  assumes "freqDataQueue this = Some q" and "tracker this = Some t"
    and "\<not> includeRawAudio this" and "\<not> silent f"
  shows "onAudioFrame this f td =
     (let q2 = push_shift (numFrames this) q (slice0 f (columnTruncateLength this));
          t' = snd (Tracker_tick t);
          this4 = this\<lparr> freqDataQueue := Some q2, tracker := Some t' \<rparr>
      in if fst (Tracker_tick t) then
           (case flattenQueue q2 of
              Inl e \<Rightarrow> (Threw e, this4)
            | Inr fd \<Rightarrow>
               (case getInputTensorFromFrequencyData fd
                       [1, numFrames this, columnTruncateLength this, 1] of
                  Inl e \<Rightarrow> (Threw e, this4)
                | Inr ft \<Rightarrow>
                   (let r = spectrogramCallback this (callbackState this) ft None
                    in (Returned,
                        this4\<lparr> callbackState := snd r,
                               tracker := Some (if fst r then Tracker_suppress t' else t') \<rparr>))))
         else (Returned, this4))"
  using assms
  by (simp add: onAudioFrame_def Let_def timeDataTensor_of_def push_shift_def
      split: sum.splits)

lemma start_Returned:
  assumes "start e node = (Returned, e1)"
  shows "e1 = e\<lparr> analyser := Some (node\<lparr> analyser_fftSize := fftSize e * 2,
                                             smoothingTimeConstant := 0 \<rparr>),
                  freqDataQueue := Some [],
                  timeDataQueue := (if includeRawAudio e then Some [] else timeDataQueue e),
                  tracker := Some (start_tracker e),
                  frameIntervalTask := Some Timer \<rparr>"
proof -
  have idle: "frameIntervalTask e = None" and fft: "0 \<le> fftSize e"
    using assms
    by (auto simp add: start_def Float32Array_new_def Let_def split: if_splits sum.splits)
  show ?thesis using start_idle [OF idle fft, of node] assms by simp
qed

lemma scenario_constructed:
  "BrowserFftFeatureExtractor_constructor (Some scenario_config) [] = Inr scenario_idle"
  by (simp add: BrowserFftFeatureExtractor_constructor_def scenario_config_def
      scenario_idle_def or_default_def Let_def)

lemma scenario_started: "start scenario_idle scenario_node = (Returned, scenario_streaming)"
proof -
  have "\<lfloor>(41::real) / 2\<rfloor> = 20" and "\<lfloor>(1::real) / 2\<rfloor> = 0" by simp_all
  then have "start_tracker scenario_idle =
      \<lparr> period = 20, suppressionTime = 0, counter = 0, suppressionOnset = None \<rparr>"
    by (simp add: start_tracker_def start_period_def Math_round_def scenario_idle_def
        fl64_half fl64_20 fl64_0)
  then show ?thesis
    using start_idle [of scenario_idle scenario_node]
    by (simp add: scenario_idle_def scenario_streaming_def scenario_node_def)
qed

lemma raw_constructed:
  "BrowserFftFeatureExtractor_constructor (Some raw_config) [] = Inr raw_idle"
  by (simp add: BrowserFftFeatureExtractor_constructor_def raw_config_def raw_idle_def
      or_default_def Let_def)

lemma raw_started: "start raw_idle scenario_node = (Returned, raw_streaming)"
proof -
  have "\<lfloor>(3::real) / 2\<rfloor> = 1" and "\<lfloor>(1::real) / 2\<rfloor> = 0" by simp_all
  then have "start_tracker raw_idle =
      \<lparr> period = 1, suppressionTime = 0, counter = 0, suppressionOnset = None \<rparr>"
    by (simp add: start_tracker_def start_period_def Math_round_def raw_idle_def
        fl64_1 fl64_0)
  then show ?thesis
    using start_idle [of raw_idle scenario_node]
    by (simp add: raw_idle_def raw_streaming_def scenario_node_def)
qed

text \<open>
  The sign of the suppression time is checked by the constructor of the extractor.
\<close>

lemma constructor_rejects_negative_suppressionTime:
  assumes "config_spectrogramCallback c = Some cb"
    and "0 < config_numFramesPerSpectrogram c"
    and "config_suppressionTimeMillis c < 0"
  shows "BrowserFftFeatureExtractor_constructor (Some c) s0 = Inl NegativeSuppressionTime"
  using assms by (simp add: BrowserFftFeatureExtractor_constructor_def)

lemma start_streaming:
  "frameIntervalTask this \<noteq> None \<Longrightarrow> start this node = (Threw AlreadyStarted, this)"
  by (simp add: start_def)

lemma stop_idle: "frameIntervalTask this = None \<Longrightarrow> stop this = (Threw NotStreaming, this)"
  by (simp add: stop_def)

lemma stop_without_audioContext:
  assumes "frameIntervalTask this \<noteq> None" and "analyser this = Some a"
    and "audioContext this = None"
  shows "stop this =
           (Threw TypeError,
            this\<lparr> frameIntervalTask := None, analyser := Some (a\<lparr> connected := False \<rparr>) \<rparr>)"
  using assms by (simp add: stop_def Let_def)

lemma constructor_then_start_then_stop:
  assumes "BrowserFftFeatureExtractor_constructor (Some cfg) s0 = Inr e0"
    and "start e0 node = (Returned, e1)"
  shows "fst (stop e1) = Threw TypeError \<and> frameIntervalTask (snd (stop e1)) = None"
proof -
  note e1 = start_Returned [OF assms(2)]
  have "audioContext e1 = None" "frameIntervalTask e1 \<noteq> None"
    "analyser e1 = Some (node\<lparr> analyser_fftSize := fftSize e0 * 2, smoothingTimeConstant := 0 \<rparr>)"
    using constructor_Inr(3) [OF assms(1)] by (simp_all add: e1)
  from stop_without_audioContext [OF this(2) this(3) this(1)] show ?thesis by simp
qed

text \<open>
  C9, at the scenario. \<open>stop()\<close> on the idle object and \<open>start()\<close> on the streaming
  object raise the illegal-state errors and leave the object as it was. The first
  \<open>stop()\<close> on the streaming object clears the timer and disconnects the analyser,
  then raises a \<open>TypeError\<close> at \<open>this.audioContext.close()\<close>; the second raises the
  illegal-state error.
\<close>

theorem stop_after_start_raises_TypeError:
  "BrowserFftFeatureExtractor_constructor (Some scenario_config) [] = Inr scenario_idle
   \<and> stop scenario_idle = (Threw NotStreaming, scenario_idle)
   \<and> start scenario_idle scenario_node = (Returned, scenario_streaming)
   \<and> start scenario_streaming scenario_node = (Threw AlreadyStarted, scenario_streaming)
   \<and> stop scenario_streaming =
       (Threw TypeError,
        scenario_streaming
          \<lparr> frameIntervalTask := None,
            analyser := Some \<lparr> analyser_fftSize = 8, smoothingTimeConstant = 0,
                               connected = False \<rparr> \<rparr>)
   \<and> fst (stop (snd (stop scenario_streaming))) = Threw NotStreaming"
proof -
  let ?a = "\<lparr> analyser_fftSize = 8, smoothingTimeConstant = 0, connected = True \<rparr>"
  have first: "stop scenario_streaming =
      (Threw TypeError,
       scenario_streaming\<lparr> frameIntervalTask := None,
                           analyser := Some (?a\<lparr> connected := False \<rparr>) \<rparr>)"
    by (rule stop_without_audioContext)
       (simp_all add: scenario_streaming_def scenario_idle_def)
  have idle: "stop scenario_idle = (Threw NotStreaming, scenario_idle)"
    by (rule stop_idle) (simp add: scenario_idle_def)
  have again: "start scenario_streaming scenario_node = (Threw AlreadyStarted, scenario_streaming)"
    by (rule start_streaming) (simp add: scenario_streaming_def)
  show ?thesis
    using scenario_constructed scenario_started idle again
    by (simp add: first stop_idle)
qed

text \<open>
  C10. A missing suppression duration of the Tracker is 0. With a callback, a positive
  frame count, a suppression time that is not negative and an overlap factor in
  \<open>[0, 1)\<close>: a configuration without \<open>sampleRateHz\<close>, \<open>fftSize\<close> and
  \<open>columnTruncateLength\<close> is constructed with 44100, 1024 and 1024; a missing
  \<open>columnTruncateLength\<close> is the \<open>fftSize\<close> given; and a
  \<open>columnTruncateLength\<close> above the defaulted \<open>fftSize\<close> of 1024 is rejected.
\<close>

theorem omitted_parameters_defaulted:
  assumes "config_spectrogramCallback cfg = Some cb"
    and "0 < config_numFramesPerSpectrogram cfg"
    and "0 \<le> config_suppressionTimeMillis cfg"
    and "0 \<le> config_overlapFactor cfg" and "config_overlapFactor cfg < 1"
    and "n \<noteq> 0" and "1024 < c"
  shows "Tracker_constructor p None = Tracker_constructor p (Some 0)
       \<and> (\<exists>e. BrowserFftFeatureExtractor_constructor
                 (Some (cfg\<lparr> config_sampleRateHz := None, config_fftSize := None,
                              config_columnTruncateLength := None \<rparr>)) s0 = Inr e
               \<and> sampleRateHz e = 44100 \<and> fftSize e = 1024
               \<and> columnTruncateLength e = 1024)
       \<and> (\<exists>e. BrowserFftFeatureExtractor_constructor
                 (Some (cfg\<lparr> config_fftSize := Some n,
                              config_columnTruncateLength := None \<rparr>)) s0 = Inr e
               \<and> fftSize e = n \<and> columnTruncateLength e = n)
       \<and> BrowserFftFeatureExtractor_constructor
            (Some (cfg\<lparr> config_fftSize := None,
                         config_columnTruncateLength := Some c \<rparr>)) s0 =
           Inl TruncateLengthExceedsFftSize"
  using assms
  by (simp add: Tracker_constructor_def BrowserFftFeatureExtractor_constructor_def
      or_default_def Let_def)

theorem omitted_parameters_defaulted_witness:
  "Tracker_constructor 3 None =
     Inr \<lparr> period = 3, suppressionTime = 0, counter = 0, suppressionOnset = None \<rparr>
   \<and> (\<exists>e. BrowserFftFeatureExtractor_constructor
             (Some (scenario_config\<lparr> config_sampleRateHz := None, config_fftSize := None,
                                     config_columnTruncateLength := None \<rparr>)) [] = Inr e
           \<and> sampleRateHz e = 44100 \<and> fftSize e = 1024 \<and> columnTruncateLength e = 1024)
   \<and> BrowserFftFeatureExtractor_constructor
        (Some (scenario_config\<lparr> config_fftSize := None,
                                config_columnTruncateLength := Some 1025 \<rparr>)) [] =
       Inl TruncateLengthExceedsFftSize"
  using omitted_parameters_defaulted [of scenario_config logging_callback 512 1025 3 "[]"]
  by (simp add: scenario_config_def Tracker_constructor_def)

section \<open>Properties of the frame queue\<close>

lemma tl_as_drop: "tl zs = drop (Suc 0) zs"
  by (simp add: drop_Suc)

lemma push_shift_last_frames:
  assumes "0 \<le> n"
  shows "push_shift n (last_frames n xs) x = last_frames n (xs @ [x])"
proof -
  define m where "m = nat n"
  have n: "n = int m" using assms by (simp add: m_def)
  consider (short) "length xs < m" | (full) "length xs = m" | (over) "length xs > m"
    by linarith
  then show ?thesis
  proof cases
    case short
    then show ?thesis by (simp add: push_shift_def last_frames_def n)
  next
    case full
    then show ?thesis by (simp add: push_shift_def last_frames_def n tl_as_drop)
  next
    case over
    show ?thesis
    proof (cases "m = 0")
      case True
      then show ?thesis by (simp add: push_shift_def last_frames_def n)
    next
      case False
      with over have "Suc (length xs) - m = Suc (length xs - m)" by simp
      with over False show ?thesis
        by (simp add: push_shift_def last_frames_def n tl_as_drop)
    qed
  qed
qed

lemma onAudioFrame_static:
  "numFrames (snd (onAudioFrame this f td)) = numFrames this"
  "columnTruncateLength (snd (onAudioFrame this f td)) = columnTruncateLength this"
  "includeRawAudio (snd (onAudioFrame this f td)) = includeRawAudio this"
  "fftSize (snd (onAudioFrame this f td)) = fftSize this"
  "spectrogramCallback (snd (onAudioFrame this f td)) = spectrogramCallback this"
  "frameIntervalTask (snd (onAudioFrame this f td)) = frameIntervalTask this"
  by (simp_all add: onAudioFrame_def Let_def split: option.splits sum.splits)

lemma onAudioFrame_queue:
  assumes "freqDataQueue this = Some q"
    and "includeRawAudio this \<longrightarrow> timeDataQueue this \<noteq> None"
  shows "freqDataQueue (snd (onAudioFrame this f td)) =
           Some (if silent f then q
                 else push_shift (numFrames this) q (slice0 f (columnTruncateLength this)))"
    and "includeRawAudio this \<longrightarrow> timeDataQueue (snd (onAudioFrame this f td)) \<noteq> None"
  using assms
  by (auto simp add: onAudioFrame_def Let_def push_shift_def split: option.splits sum.splits)

lemma onAudioFrame_tracker_Some:
  assumes "tracker this = Some t"
  shows "\<exists>t'. tracker (snd (onAudioFrame this f td)) = Some t'"
  using assms
  by (auto simp add: onAudioFrame_def Let_def split: option.splits sum.splits)

lemma onAudioFrames_Nil: "onAudioFrames this [] = this"
  by (simp add: onAudioFrames_def)

lemma onAudioFrames_Cons:
  "onAudioFrames this ((f, td) # samples) = onAudioFrames (snd (onAudioFrame this f td)) samples"
  by (simp add: onAudioFrames_def)

lemma onAudioFrames_snoc:
  "onAudioFrames this (samples @ [(f, td)]) = snd (onAudioFrame (onAudioFrames this samples) f td)"
  by (simp add: onAudioFrames_def)

lemma pushed_frames_Cons:
  "pushed_frames c ((f, td) # samples) =
     (if silent f then pushed_frames c samples else slice0 f c # pushed_frames c samples)"
  by (simp add: pushed_frames_def)

lemma onAudioFrames_static:
  "numFrames (onAudioFrames this samples) = numFrames this
   \<and> columnTruncateLength (onAudioFrames this samples) = columnTruncateLength this
   \<and> includeRawAudio (onAudioFrames this samples) = includeRawAudio this
   \<and> fftSize (onAudioFrames this samples) = fftSize this
   \<and> spectrogramCallback (onAudioFrames this samples) = spectrogramCallback this
   \<and> frameIntervalTask (onAudioFrames this samples) = frameIntervalTask this"
proof (induction samples arbitrary: this)
  case Nil
  show ?case by (simp add: onAudioFrames_Nil)
next
  case (Cons s samples)
  obtain f td where s: "s = (f, td)" by (cases s)
  show ?case
    unfolding s onAudioFrames_Cons
    using Cons.IH [of "snd (onAudioFrame this f td)"]
    by (simp add: onAudioFrame_static)
qed

lemma onAudioFrames_queue:
  assumes "freqDataQueue this = Some (last_frames n xs)"
    and "numFrames this = n" and "0 \<le> n"
    and "includeRawAudio this \<longrightarrow> timeDataQueue this \<noteq> None"
  shows "freqDataQueue (onAudioFrames this samples) =
           Some (last_frames n (xs @ pushed_frames (columnTruncateLength this) samples))"
  using assms
proof (induction samples arbitrary: this xs)
  case Nil
  then show ?case by (simp add: onAudioFrames_Nil pushed_frames_def)
next
  case (Cons s samples)
  obtain f td where s: "s = (f, td)" by (cases s)
  let ?next = "snd (onAudioFrame this f td)"
  let ?c = "columnTruncateLength this"
  have static: "numFrames ?next = n" "columnTruncateLength ?next = ?c"
    "includeRawAudio ?next = includeRawAudio this"
    using Cons.prems(2) by (simp_all add: onAudioFrame_static)
  have raw: "includeRawAudio ?next \<longrightarrow> timeDataQueue ?next \<noteq> None"
    using onAudioFrame_queue(2) [OF Cons.prems(1) Cons.prems(4)] static(3) by simp
  show ?case
  proof (cases "silent f")
    case True
    have "freqDataQueue ?next = Some (last_frames n xs)"
      using onAudioFrame_queue(1) [OF Cons.prems(1) Cons.prems(4)] True by simp
    from Cons.IH [OF this static(1) Cons.prems(3) raw]
    show ?thesis by (simp add: s onAudioFrames_Cons pushed_frames_Cons True static(2))
  next
    case False
    have "freqDataQueue ?next = Some (last_frames n (xs @ [slice0 f ?c]))"
      using onAudioFrame_queue(1) [OF Cons.prems(1) Cons.prems(4)] False Cons.prems(2,3)
      by (simp add: push_shift_last_frames)
    from Cons.IH [OF this static(1) Cons.prems(3) raw]
    show ?thesis by (simp add: s onAudioFrames_Cons pushed_frames_Cons False static(2))
  qed
qed

lemma length_last_frames: "length (last_frames n xs) = min (length xs) (nat n)"
  by (simp add: last_frames_def)

lemma constructor_fft_nonzero:
  assumes "BrowserFftFeatureExtractor_constructor (Some cfg) s0 = Inr e"
  shows "fftSize e \<noteq> 0" and "columnTruncateLength e \<noteq> 0"
  using assms
  by (auto simp add: BrowserFftFeatureExtractor_constructor_def Let_def or_default_def
      split: option.splits if_splits)

lemma last_frames_Nil: "last_frames n [] = []"
  by (simp add: last_frames_def)

text \<open>
  From \<open>start\<close> on, after any run of ticks the frequency queue holds the most
  recent \<open>numFrames\<close> of the frames pushed, oldest first: its length is the number of
  pushes while that is below the capacity and the capacity from then on, and each
  further push drops exactly the oldest frame.
\<close>

theorem freqDataQueue_window:
  assumes "BrowserFftFeatureExtractor_constructor (Some cfg) s0 = Inr e0"
    and "start e0 node = (Returned, e1)"
  shows "freqDataQueue (onAudioFrames e1 samples) =
           Some (last_frames (numFrames e0) (pushed_frames (columnTruncateLength e0) samples))
       \<and> length (last_frames (numFrames e0) (pushed_frames (columnTruncateLength e0) samples)) =
           min (length (pushed_frames (columnTruncateLength e0) samples)) (nat (numFrames e0))"
proof -
  note e1 = start_Returned [OF assms(2)]
  have n: "0 \<le> numFrames e0" using constructor_Inr(1) [OF assms(1)] by simp
  have "freqDataQueue (onAudioFrames e1 samples) =
          Some (last_frames (numFrames e0) ([] @ pushed_frames (columnTruncateLength e1) samples))"
    by (rule onAudioFrames_queue) (simp_all add: e1 last_frames_Nil n)
  then show ?thesis by (simp add: e1 length_last_frames)
qed

theorem freqDataQueue_window_witness:
  "freqDataQueue (onAudioFrames
       (snd (start \<lparr> suppressionTimeMillis = 0, spectrogramCallback = logging_callback,
                     numFrames = 2, sampleRateHz = 44100, fftSize = 1024,
                     frameDurationMillis = fl64 (fl64 (1024 / 44100) * 1000),
                     columnTruncateLength = 1,
                     overlapFactor = 0, includeRawAudio = False, analyser = None,
                     freqDataQueue = None, timeDataQueue = None, tracker = None,
                     frameIntervalTask = None, audioContext = None, stream = None,
                     callbackState = [] \<rparr> scenario_node))
       [([Fin 1, Fin 9], []), ([NegInfinity, Fin 9], []), ([Fin 2, Fin 9], []),
        ([Fin 3, Fin 9], [])]) =
     Some [[Fin 2], [Fin 3]]"
proof -
  let ?cfg = "\<lparr> config_spectrogramCallback = Some logging_callback,
       config_numFramesPerSpectrogram = 2, config_suppressionTimeMillis = 0,
       config_sampleRateHz = None, config_fftSize = None,
       config_columnTruncateLength = Some 1, config_overlapFactor = 0,
       config_includeRawAudio = False \<rparr>"
  let ?e0 = "\<lparr> suppressionTimeMillis = 0, spectrogramCallback = logging_callback,
                     numFrames = 2, sampleRateHz = 44100, fftSize = 1024,
                     frameDurationMillis = fl64 (fl64 (1024 / 44100) * 1000),
                     columnTruncateLength = 1,
                     overlapFactor = 0, includeRawAudio = False, analyser = None,
                     freqDataQueue = None, timeDataQueue = None, tracker = None,
                     frameIntervalTask = None, audioContext = None, stream = None,
                     callbackState = [] \<rparr>"
  have ctor: "BrowserFftFeatureExtractor_constructor (Some ?cfg) [] = Inr ?e0"
    by (simp add: BrowserFftFeatureExtractor_constructor_def or_default_def Let_def)
  have st: "start ?e0 scenario_node = (Returned, snd (start ?e0 scenario_node))"
    using start_idle [of ?e0 scenario_node] by simp
  show ?thesis
    using freqDataQueue_window [OF ctor st,
        of "[([Fin 1, Fin 9], []), ([NegInfinity, Fin 9], []), ([Fin 2, Fin 9], []),
             ([Fin 3, Fin 9], [])]"]
    by (simp add: pushed_frames_def silent_def slice0_def last_frames_def)
qed

text \<open>
  The time-domain queue of \<open>includeRawAudio\<close> is pushed on the same ticks and never
  shifted: it holds every time-domain frame pushed since \<open>start\<close>.
\<close>

lemma onAudioFrame_timeDataQueue:
  assumes "freqDataQueue this = Some q" and "timeDataQueue this = Some tq"
    and "includeRawAudio this"
  shows "timeDataQueue (snd (onAudioFrame this f td)) =
           Some (if silent f then tq else tq @ [td])"
  using assms
  by (auto simp add: onAudioFrame_def Let_def split: option.splits sum.splits)

lemma onAudioFrames_timeDataQueue:
  assumes "freqDataQueue this = Some q" and "timeDataQueue this = Some tq"
    and "includeRawAudio this"
  shows "timeDataQueue (onAudioFrames this samples) = Some (tq @ pushed_time_frames samples)"
  using assms
proof (induction samples arbitrary: this q tq)
  case Nil
  then show ?case by (simp add: onAudioFrames_Nil pushed_time_frames_def)
next
  case (Cons s samples)
  obtain f td where s: "s = (f, td)" by (cases s)
  let ?next = "snd (onAudioFrame this f td)"
  have raw: "includeRawAudio this \<longrightarrow> timeDataQueue this \<noteq> None"
    using Cons.prems(2) by simp
  have q': "freqDataQueue ?next =
      Some (if silent f then q
            else push_shift (numFrames this) q (slice0 f (columnTruncateLength this)))"
    using onAudioFrame_queue(1) [OF Cons.prems(1) raw] .
  have tq': "timeDataQueue ?next = Some (if silent f then tq else tq @ [td])"
    using onAudioFrame_timeDataQueue [OF Cons.prems] .
  have raw': "includeRawAudio ?next"
    using Cons.prems(3) by (simp add: onAudioFrame_static)
  show ?case
    using Cons.IH [OF q' tq' raw']
    by (simp add: s onAudioFrames_Cons pushed_time_frames_def)
qed

lemma raw_first_tick:
  "onAudioFrame raw_streaming (fst raw_sample) (snd raw_sample) =
     (Returned, raw_after_first_tick)"
  by (simp add: onAudioFrame_def raw_streaming_def raw_idle_def raw_sample_def silent_def
      slice0_def Tracker_tick_def js_rem_def Let_def flattenQueue_def typed_array_set_def
      getInputTensorFromFrequencyData_def Float32Array_new_def sizeFromShape_def tf_tensor_def
      timeDataTensor_of_def logging_callback_def raw_after_first_tick_def)

lemma raw_second_tick:
  "fst (onAudioFrame raw_after_first_tick (fst raw_sample) (snd raw_sample)) = Threw RangeError"
  by (simp add: onAudioFrame_def raw_after_first_tick_def raw_streaming_def raw_idle_def
      raw_sample_def silent_def
      slice0_def Tracker_tick_def js_rem_def Let_def flattenQueue_def typed_array_set_def
      getInputTensorFromFrequencyData_def Float32Array_new_def sizeFromShape_def tf_tensor_def
      timeDataTensor_of_def logging_callback_def)

text \<open>
  C5, at the raw-audio scenario. After three ticks the frequency queue holds the one
  most recent frame, as its capacity 1 demands, and the time-domain queue holds all
  three frames. The first tick fires and returns; the second fires and raises a
  \<open>RangeError\<close>, the flattened time-domain queue being longer than its tensor.
\<close>

theorem timeDataQueue_never_shifted:
  "BrowserFftFeatureExtractor_constructor (Some raw_config) [] = Inr raw_idle
   \<and> start raw_idle scenario_node = (Returned, raw_streaming)
   \<and> numFrames raw_streaming = 1
   \<and> freqDataQueue (onAudioFrames raw_streaming (replicate 3 raw_sample)) = Some [[Fin 1]]
   \<and> timeDataQueue (onAudioFrames raw_streaming (replicate 3 raw_sample)) =
       Some [[Fin 3, Fin 4], [Fin 3, Fin 4], [Fin 3, Fin 4]]
   \<and> onAudioFrame raw_streaming (fst raw_sample) (snd raw_sample) =
       (Returned, raw_after_first_tick)
   \<and> fst (onAudioFrame raw_after_first_tick (fst raw_sample) (snd raw_sample)) =
       Threw RangeError"
proof -
  have loud: "\<not> silent (fst raw_sample)"
    by (simp add: raw_sample_def silent_def)
  have three: "replicate 3 raw_sample = [raw_sample, raw_sample, raw_sample]"
    by (simp add: eval_nat_numeral)
  have freq: "freqDataQueue (onAudioFrames raw_streaming (replicate 3 raw_sample)) =
      Some (last_frames 1 ([] @ pushed_frames (columnTruncateLength raw_streaming)
                                  (replicate 3 raw_sample)))"
    by (rule onAudioFrames_queue)
       (simp_all add: raw_streaming_def raw_idle_def last_frames_Nil)
  have time: "timeDataQueue (onAudioFrames raw_streaming (replicate 3 raw_sample)) =
      Some ([] @ pushed_time_frames (replicate 3 raw_sample))"
    by (rule onAudioFrames_timeDataQueue [where q = "[]"])
       (simp_all add: raw_streaming_def raw_idle_def)
  have "freqDataQueue (onAudioFrames raw_streaming (replicate 3 raw_sample)) = Some [[Fin 1]]"
    using freq loud
    by (simp add: three pushed_frames_def last_frames_def raw_streaming_def raw_idle_def)
       (simp add: raw_sample_def slice0_def)
  moreover have "timeDataQueue (onAudioFrames raw_streaming (replicate 3 raw_sample)) =
      Some [[Fin 3, Fin 4], [Fin 3, Fin 4], [Fin 3, Fin 4]]"
    using time loud by (simp add: three pushed_time_frames_def) (simp add: raw_sample_def)
  moreover have "numFrames raw_streaming = 1"
    by (simp add: raw_streaming_def raw_idle_def)
  ultimately show ?thesis
    using raw_constructed raw_started raw_first_tick raw_second_tick by simp
qed

text \<open>
  C6. A tick whose sample starts with \<open>-Infinity\<close> returns at once: the object is
  unchanged (queues, tracker, callback state), nothing is raised, and a run of ticks
  ends in the same object with or without the silent tick.
\<close>

theorem silent_tick_skipped:
  assumes "silent f"
  shows "onAudioFrame this f td = (Returned, this)
       \<and> onAudioFrames this (before @ (f, td) # after) = onAudioFrames this (before @ after)"
  using assms by (simp add: onAudioFrame_silent onAudioFrames_def)

theorem silent_tick_skipped_witness:
  "silent [NegInfinity, Fin 1, Fin 2, Fin 3]
   \<and> onAudioFrame scenario_streaming [NegInfinity, Fin 1, Fin 2, Fin 3] [] =
       (Returned, scenario_streaming)
   \<and> onAudioFrames scenario_streaming [scenario_sample, ([NegInfinity, Fin 1, Fin 2, Fin 3], [])]
       = onAudioFrames scenario_streaming [scenario_sample]"
  using silent_tick_skipped [of "[NegInfinity, Fin 1, Fin 2, Fin 3]" scenario_streaming "[]"
      "[scenario_sample]" "[]"]
  by (simp add: silent_def)

section \<open>When the callback is invoked\<close>

lemma callback_only_when_fire:
  assumes "callbackState (snd (onAudioFrame this f td)) \<noteq> callbackState this"
  shows "\<not> silent f \<and> (\<exists>t. tracker this = Some t \<and> fst (Tracker_tick t))"
  using assms
  by (auto simp add: onAudioFrame_def Let_def split: option.splits sum.splits if_splits)

lemma length_slice0: "0 \<le> c \<Longrightarrow> c \<le> int (length f) \<Longrightarrow> length (slice0 f c) = nat c"
  by (simp add: slice0_def)

lemma set_last_frames: "set (last_frames n xs) \<subseteq> set xs"
  by (simp add: last_frames_def set_drop_subset)

lemma last_frames_snoc_nonempty: "0 < n \<Longrightarrow> last_frames n (xs @ [x]) \<noteq> []"
  by (simp add: last_frames_def)

lemma onAudioFrame_window:
  assumes q: "freqDataQueue e = Some (last_frames n xs)" and t: "tracker e = Some t"
    and raw: "\<not> includeRawAudio e" and f: "\<not> silent f"
    and n: "numFrames e = n" "0 < n" and c: "columnTruncateLength e = c" "0 \<le> c"
    and xs: "\<forall>x \<in> set xs. length x = nat c" and len: "c \<le> int (length f)"
  shows "onAudioFrame e f td =
     (let q2 = last_frames n (xs @ [slice0 f c]);
          t' = snd (Tracker_tick t);
          this4 = e\<lparr> freqDataQueue := Some q2, tracker := Some t' \<rparr>
      in if fst (Tracker_tick t) then
           (let r = spectrogramCallback e (callbackState e) (window_tensor n c q2) None
            in (Returned,
                this4\<lparr> callbackState := snd r,
                       tracker := Some (if fst r then Tracker_suppress t' else t') \<rparr>))
         else (Returned, this4))"
proof -
  define q2 where "q2 = last_frames n (xs @ [slice0 f c])"
  have push: "push_shift n (last_frames n xs) (slice0 f c) = q2"
    using n(2) by (simp add: push_shift_last_frames q2_def)
  have uniform: "\<forall>x \<in> set q2. length x = nat c"
    using xs set_last_frames [of n "xs @ [slice0 f c]"] length_slice0 [OF c(2) len]
    by (auto simp add: q2_def)
  have nonempty: "q2 \<noteq> []"
    using n(2) by (simp add: q2_def last_frames_snoc_nonempty)
  have flat: "flattenQueue q2 = Inr (concat q2)"
    using flattenQueue_uniform [OF nonempty uniform] .
  have "length q2 \<le> nat n" by (simp add: q2_def length_last_frames)
  then have "length q2 * nat c \<le> nat n * nat c" by (rule mult_le_mono1)
  then have "int (length q2 * nat c) \<le> int (nat n * nat c)"
    by (simp only: of_nat_le_iff)
  moreover have "int (nat n * nat c) = n * c"
    using n(2) c(2) by simp
  ultimately have "int (length (concat q2)) \<le> n * c"
    using length_concat_uniform [OF uniform] by simp
  then have fits: "int (length (concat q2)) \<le> sizeFromShape [1, n, c, 1]"
    by (simp add: sizeFromShape_def)
  have dims: "\<forall>d \<in> set [1, n, c, 1]. 0 \<le> d"
    using n(2) c(2) by simp
  have tens: "getInputTensorFromFrequencyData (concat q2) [1, n, c, 1] = Inr (window_tensor n c q2)"
    using getInputTensor_right_aligned [OF fits dims]
    by (simp add: window_tensor_def sizeFromShape_def)
  show ?thesis
    using onAudioFrame_no_raw [OF q t raw f, of td]
    by (simp add: push flat tens n c q2_def [symmetric] Let_def)
qed

lemma pushed_frames_uniform:
  assumes "0 \<le> c" and "\<forall>s \<in> set samples. c \<le> int (length (fst s))"
  shows "\<forall>x \<in> set (pushed_frames c samples). length x = nat c"
  using assms by (auto simp add: pushed_frames_def length_slice0)

lemma onAudioFrames_tracker_Some:
  assumes "tracker this = Some t"
  shows "\<exists>t'. tracker (onAudioFrames this samples) = Some t'"
  using assms
proof (induction samples arbitrary: this t)
  case Nil
  then show ?case by (simp add: onAudioFrames_Nil)
next
  case (Cons s samples)
  obtain f td where s: "s = (f, td)" by (cases s)
  obtain t' where "tracker (snd (onAudioFrame this f td)) = Some t'"
    using onAudioFrame_tracker_Some [OF Cons.prems] by blast
  from Cons.IH [OF this] show ?case by (simp add: s onAudioFrames_Cons)
qed

lemma Tracker_tick_snd: "snd (Tracker_tick t) = t\<lparr> counter := counter t + 1 \<rparr>"
  by (simp add: Tracker_tick_def Let_def)

lemma Tracker_tick_quiet:
  assumes "0 \<le> counter t" and "counter t + 1 < period t"
  shows "\<not> fst (Tracker_tick t)"
proof -
  have "js_rem (counter t + 1) (period t) = Some ((counter t + 1) mod period t)"
    using assms by (intro js_rem_nonneg) simp_all
  then show ?thesis using assms by (simp add: Tracker_tick_def Let_def)
qed

lemma onAudioFrame_tracker_no_rest:
  assumes "freqDataQueue this = Some q" and "tracker this = Some t"
    and "includeRawAudio this \<longrightarrow> timeDataQueue this \<noteq> None"
    and "\<forall>s ft tt. \<not> fst (spectrogramCallback this s ft tt)"
  shows "tracker (snd (onAudioFrame this f td)) =
           Some (if silent f then t else snd (Tracker_tick t))"
  using assms
  by (auto simp add: onAudioFrame_def Let_def split: option.splits sum.splits)

lemma length_pushed_frames_Cons:
  "length (pushed_frames c ((f, td) # samples)) =
     (if silent f then 0 else 1) + length (pushed_frames c samples)"
  by (simp add: pushed_frames_Cons)

lemma onAudioFrames_quiet:
  assumes "freqDataQueue this = Some q" and "tracker this = Some t"
    and "includeRawAudio this \<longrightarrow> timeDataQueue this \<noteq> None"
    and "\<forall>s ft tt. \<not> fst (spectrogramCallback this s ft tt)"
    and "0 \<le> counter t"
    and "counter t + int (length (pushed_frames c samples)) < period t"
  shows "callbackState (onAudioFrames this samples) = callbackState this
       \<and> tracker (onAudioFrames this samples) =
           Some (t\<lparr> counter := counter t + int (length (pushed_frames c samples)) \<rparr>)"
  using assms
proof (induction samples arbitrary: this q t)
  case Nil
  then show ?case by (simp add: onAudioFrames_Nil pushed_frames_def)
next
  case (Cons s samples)
  obtain f td where s: "s = (f, td)" by (cases s)
  let ?next = "snd (onAudioFrame this f td)"
  let ?t = "if silent f then t else snd (Tracker_tick t)"
  have q': "freqDataQueue ?next =
      Some (if silent f then q
            else push_shift (numFrames this) q (slice0 f (columnTruncateLength this)))"
    using onAudioFrame_queue(1) [OF Cons.prems(1) Cons.prems(3)] .
  have raw': "includeRawAudio ?next \<longrightarrow> timeDataQueue ?next \<noteq> None"
    using onAudioFrame_queue(2) [OF Cons.prems(1) Cons.prems(3)]
    by (simp add: onAudioFrame_static)
  have rest': "\<forall>s ft tt. \<not> fst (spectrogramCallback ?next s ft tt)"
    using Cons.prems(4) by (simp add: onAudioFrame_static)
  have t': "tracker ?next = Some ?t"
    using onAudioFrame_tracker_no_rest [OF Cons.prems(1-4)] .
  have len: "int (length (pushed_frames c (s # samples))) =
      (if silent f then 0 else 1) + int (length (pushed_frames c samples))"
    by (simp add: s length_pushed_frames_Cons)
  have c0: "0 \<le> counter ?t" using Cons.prems(5) by (simp add: Tracker_tick_snd)
  have c1: "counter ?t + int (length (pushed_frames c samples)) < period ?t"
    using Cons.prems(6) len by (cases "silent f") (simp_all add: Tracker_tick_snd)
  have quiet: "callbackState ?next = callbackState this"
  proof (cases "silent f")
    case True
    then show ?thesis by (simp add: onAudioFrame_silent)
  next
    case False
    have "counter t + 1 < period t" using Cons.prems(6) len False by simp
    then have "\<not> fst (Tracker_tick t)" using Tracker_tick_quiet Cons.prems(5) by blast
    then show ?thesis
      using callback_only_when_fire [of this f td] Cons.prems(2) by auto
  qed
  have "callbackState (onAudioFrames ?next samples) = callbackState ?next
       \<and> tracker (onAudioFrames ?next samples) =
           Some (?t\<lparr> counter := counter ?t + int (length (pushed_frames c samples)) \<rparr>)"
    using Cons.IH [OF q' t' raw' rest' c0 c1] .
  then show ?case
    using len by (simp add: s onAudioFrames_Cons quiet Tracker_tick_snd add.assoc)
qed

lemma replicate_snoc_numeral:
  "replicate 19 x @ [x] = replicate 20 x"
  by (simp add: eval_nat_numeral replicate_append_same)

lemma concat_replicate_length [simp]: "length (concat (replicate k fr)) = k * length fr"
  by (induction k) simp_all

lemma flattenQueue_forEach_error:
  "flattenQueue_forEach W ixs buf = Inl e \<Longrightarrow> e = RangeError"
proof (induction ixs arbitrary: buf)
  case Nil
  then show ?case by simp
next
  case (Cons ix ixs)
  obtain i data where ix: "ix = (i, data)" by (cases ix)
  show ?case
  proof (cases "typed_array_set buf data (int (i * W))")
    case (Inl e')
    then have "e' = RangeError" by (simp add: typed_array_set_def split: if_splits)
    with Inl Cons.prems show ?thesis by (simp add: ix del: of_nat_mult)
  next
    case (Inr buf')
    with Cons.prems have "flattenQueue_forEach W ixs buf' = Inl e"
      by (simp add: ix del: of_nat_mult)
    then show ?thesis by (rule Cons.IH)
  qed
qed

text \<open>
  With a negative truncate length the frequency tensor has a negative size: a tick on
  which the Tracker fires raises a \<open>RangeError\<close> and does not reach the callback.
\<close>

lemma negative_truncate_length_raises:
  assumes "freqDataQueue this = Some q" and "tracker this = Some t"
    and "\<not> includeRawAudio this" and "\<not> silent f" and "fst (Tracker_tick t)"
    and "0 < numFrames this" and "columnTruncateLength this < 0"
  shows "fst (onAudioFrame this f td) = Threw RangeError
       \<and> callbackState (snd (onAudioFrame this f td)) = callbackState this"
proof -
  let ?q2 = "push_shift (numFrames this) q (slice0 f (columnTruncateLength this))"
  have "?q2 \<noteq> []"
    using assms(6) by (cases q) (auto simp add: push_shift_def)
  then obtain q0 qs where q2: "?q2 = q0 # qs" by (cases ?q2) auto
  have size: "sizeFromShape [1, numFrames this, columnTruncateLength this, 1] < 0"
    using assms(6,7) by (simp add: sizeFromShape_def mult_pos_neg)
  have tens: "getInputTensorFromFrequencyData fd
      [1, numFrames this, columnTruncateLength this, 1] = Inl RangeError" for fd
    using size by (simp add: getInputTensorFromFrequencyData_def Float32Array_new_def)
  show ?thesis
  proof (cases "flattenQueue ?q2")
    case (Inl e)
    then have "e = RangeError"
      using flattenQueue_forEach_error by (simp add: flattenQueue_def q2 Let_def del: enumerate_simps)
    with Inl show ?thesis
      using onAudioFrame_no_raw [OF assms(1-4), of td] assms(5) by (simp add: Let_def)
  next
    case (Inr fd)
    then show ?thesis
      using onAudioFrame_no_raw [OF assms(1-4), of td] assms(5) by (simp add: Let_def tens)
  qed
qed

text \<open>
  C1, as the code has it. On any tick the callback is invoked only when the sample is
  not silent and the Tracker fires. The fill of the queue is not consulted: on an
  extractor without raw audio and with a truncate length that is not negative, started
  and fed samples of \<open>fftSize\<close> bins, a tick invokes the callback exactly when its
  sample is not silent and the Tracker fires, and hands it the frames of the queue
  right-aligned in a zero tensor.
\<close>

theorem callback_follows_tracker_only:
  assumes ctor: "BrowserFftFeatureExtractor_constructor (Some cfg) s0 = Inr e0"
    and started: "start e0 node = (Returned, e1)"
    and raw: "\<not> config_includeRawAudio cfg"
    and c: "0 \<le> columnTruncateLength e0"
    and widths: "\<forall>s \<in> set ((f, td) # samples). int (length (fst s)) = fftSize e0"
  shows "(callbackState (snd (onAudioFrame this f' td')) \<noteq> callbackState this \<longrightarrow>
            \<not> silent f' \<and> (\<exists>t. tracker this = Some t \<and> fst (Tracker_tick t)))
       \<and> (\<exists>t. tracker (onAudioFrames e1 samples) = Some t
             \<and> freqDataQueue (onAudioFrames e1 samples) =
                 Some (last_frames (numFrames e0)
                         (pushed_frames (columnTruncateLength e0) samples))
             \<and> callbackState (snd (onAudioFrame (onAudioFrames e1 samples) f td)) =
                 (if \<not> silent f \<and> fst (Tracker_tick t)
                  then snd (spectrogramCallback e0 (callbackState (onAudioFrames e1 samples))
                              (window_tensor (numFrames e0) (columnTruncateLength e0)
                                 (last_frames (numFrames e0)
                                    (pushed_frames (columnTruncateLength e0) samples
                                     @ [slice0 f (columnTruncateLength e0)])))
                              None)
                  else callbackState (onAudioFrames e1 samples)))"
proof -
  let ?n = "numFrames e0" and ?c = "columnTruncateLength e0"
  let ?e = "onAudioFrames e1 samples"
  let ?xs = "pushed_frames ?c samples"
  note e1 = start_Returned [OF started]
  have n: "0 < ?n" using constructor_Inr(1) [OF ctor] .
  have cfft: "?c \<le> fftSize e0" using constructor_Inr(4) [OF ctor] .
  have raw0: "\<not> includeRawAudio e0" using constructor_Inr(6) [OF ctor] raw by simp
  have static: "numFrames ?e = ?n" "columnTruncateLength ?e = ?c" "\<not> includeRawAudio ?e"
    "spectrogramCallback ?e = spectrogramCallback e0"
    using onAudioFrames_static [of e1 samples] raw0 by (simp_all add: e1)
  have q: "freqDataQueue ?e = Some (last_frames ?n ([] @ pushed_frames (columnTruncateLength e1) samples))"
    using n raw0 by (intro onAudioFrames_queue) (simp_all add: e1 last_frames_Nil)
  then have q: "freqDataQueue ?e = Some (last_frames ?n ?xs)" by (simp add: e1)
  obtain t where t: "tracker ?e = Some t"
    using onAudioFrames_tracker_Some [of e1 "start_tracker e0" samples] by (auto simp add: e1)
  have uniform: "\<forall>x \<in> set ?xs. length x = nat ?c"
    using widths cfft by (intro pushed_frames_uniform [OF c]) auto
  have len: "?c \<le> int (length f)" using widths cfft by simp
  have "callbackState (snd (onAudioFrame ?e f td)) =
      (if \<not> silent f \<and> fst (Tracker_tick t)
       then snd (spectrogramCallback e0 (callbackState ?e)
                   (window_tensor ?n ?c (last_frames ?n (?xs @ [slice0 f ?c]))) None)
       else callbackState ?e)"
  proof (cases "silent f")
    case True
    then show ?thesis by (simp add: onAudioFrame_silent)
  next
    case False
    show ?thesis
      using onAudioFrame_window [OF q t static(3) False static(1) n static(2) c uniform len,
          of td] False
      by (simp add: Let_def static(4))
  qed
  with t q callback_only_when_fire [of this f' td'] show ?thesis by blast
qed

lemma scenario_tick19:
  "callbackState (onAudioFrames scenario_streaming (replicate 19 scenario_sample)) = []"
  "tracker (onAudioFrames scenario_streaming (replicate 19 scenario_sample)) =
     Some \<lparr> period = 20, suppressionTime = 0, counter = 19, suppressionOnset = None \<rparr>"
proof -
  let ?e19 = "onAudioFrames scenario_streaming (replicate 19 scenario_sample)"
  let ?t0 = "\<lparr> period = 20, suppressionTime = 0, counter = 0, suppressionOnset = None \<rparr>"
  have loud: "\<not> silent (fst scenario_sample)"
    by (simp add: scenario_sample_def silent_def)
  have pushed: "length (pushed_frames 2 (replicate 19 scenario_sample)) = 19"
    using loud by (simp add: pushed_frames_def)
  have quiet: "callbackState ?e19 = callbackState scenario_streaming
       \<and> tracker ?e19 = Some (?t0\<lparr> counter := counter ?t0
            + int (length (pushed_frames 2 (replicate 19 scenario_sample))) \<rparr>)"
    by (rule onAudioFrames_quiet [where q = "[]"])
       (simp_all add: scenario_streaming_def scenario_idle_def logging_callback_def pushed)
  show "callbackState ?e19 = []" and "tracker ?e19 =
      Some \<lparr> period = 20, suppressionTime = 0, counter = 19, suppressionOnset = None \<rparr>"
    using quiet by (simp_all add: pushed scenario_streaming_def scenario_idle_def)
qed

theorem callback_follows_tracker_only_witness:
  "callbackState (onAudioFrames scenario_streaming (replicate 19 scenario_sample)) = []
   \<and> callbackState (snd (onAudioFrame
         (onAudioFrames scenario_streaming (replicate 19 scenario_sample))
         (fst scenario_sample) (snd scenario_sample))) =
       [window_tensor 40 2 (replicate 20 [Fin 1, Fin 2])]
   \<and> \<not> silent (fst scenario_sample)
   \<and> (\<exists>t. tracker (onAudioFrames scenario_streaming (replicate 19 scenario_sample)) = Some t
          \<and> fst (Tracker_tick t))"
proof -
  let ?e19 = "onAudioFrames scenario_streaming (replicate 19 scenario_sample)"
  have fields: "numFrames scenario_idle = 40" "columnTruncateLength scenario_idle = 2"
    "fftSize scenario_idle = 4" "spectrogramCallback scenario_idle = logging_callback"
    by (simp_all add: scenario_idle_def)
  have widths: "\<forall>s \<in> set ((fst scenario_sample, snd scenario_sample)
                              # replicate 19 scenario_sample).
                  int (length (fst s)) = fftSize scenario_idle"
    by (simp add: scenario_sample_def fields)
  have loud: "\<not> silent (fst scenario_sample)"
    by (simp add: scenario_sample_def silent_def)
  have frame: "slice0 (fst scenario_sample) 2 = [Fin 1, Fin 2]"
    by (simp add: scenario_sample_def slice0_def)
  have pushed: "pushed_frames 2 (replicate 19 scenario_sample) = replicate 19 [Fin 1, Fin 2]"
    using loud frame by (simp add: pushed_frames_def)
  have lf: "last_frames 40 (replicate 19 [Fin 1, Fin 2] @ [[Fin 1, Fin 2]]) =
      replicate 20 [Fin 1, Fin 2::jsnum]"
    by (simp add: last_frames_def replicate_snoc_numeral)
  have fire: "fst (Tracker_tick
      \<lparr> period = 20, suppressionTime = 0, counter = 19, suppressionOnset = None \<rparr>)"
    by (simp add: Tracker_tick_def js_rem_def Let_def)
  have "callbackState ?e19 \<noteq> [window_tensor 40 2 (replicate 20 [Fin 1, Fin 2])]"
    by (simp add: scenario_tick19(1))
  then show ?thesis
    using callback_follows_tracker_only [OF scenario_constructed scenario_started _ _ widths,
        of ?e19 "fst scenario_sample" "snd scenario_sample"]
      scenario_tick19 fire loud
    by (simp add: fields scenario_config_def pushed frame lf logging_callback_def)
qed

text \<open>
  C1, as the claim states it, fails. With 40 frames per spectrogram and period 20 the
  callback has not been invoked after 19 ticks and has been invoked once after 20, when
  the queue holds 20 frames; the tensor it was handed starts with 40 zeros.
\<close>

theorem fires_before_queue_full_counterexample:
  "BrowserFftFeatureExtractor_constructor (Some scenario_config) [] = Inr scenario_idle
   \<and> start scenario_idle scenario_node = (Returned, scenario_streaming)
   \<and> numFrames scenario_streaming = 40
   \<and> callbackState (onAudioFrames scenario_streaming (replicate 19 scenario_sample)) = []
   \<and> freqDataQueue (onAudioFrames scenario_streaming (replicate 20 scenario_sample)) =
       Some (replicate 20 [Fin 1, Fin 2])
   \<and> callbackState (onAudioFrames scenario_streaming (replicate 20 scenario_sample)) =
       [\<lparr> tensor_values = replicate 40 (Fin 0) @ concat (replicate 20 [Fin 1, Fin 2]),
          tensor_shape = [1, 40, 2, 1] \<rparr>]"
proof -
  let ?e19 = "onAudioFrames scenario_streaming (replicate 19 scenario_sample)"
  have loud: "\<not> silent (fst scenario_sample)"
    by (simp add: scenario_sample_def silent_def)
  have frame: "slice0 (fst scenario_sample) 2 = [Fin 1, Fin 2]"
    by (simp add: scenario_sample_def slice0_def)
  have pushed: "pushed_frames 2 (replicate k scenario_sample) = replicate k [Fin 1, Fin 2]" for k
    using loud frame by (simp add: pushed_frames_def)
  note cs19 = scenario_tick19(1) and t19 = scenario_tick19(2)
  have q19: "freqDataQueue ?e19 = Some (last_frames 40 (replicate 19 [Fin 1, Fin 2]))"
    using onAudioFrames_queue [of scenario_streaming 40 "[]" "replicate 19 scenario_sample"]
    by (simp add: scenario_streaming_def scenario_idle_def last_frames_Nil pushed)
  have static: "numFrames ?e19 = 40" "columnTruncateLength ?e19 = 2" "\<not> includeRawAudio ?e19"
    "spectrogramCallback ?e19 = logging_callback"
    using onAudioFrames_static [of scenario_streaming "replicate 19 scenario_sample"]
    by (simp_all add: scenario_streaming_def scenario_idle_def)
  have fire: "fst (Tracker_tick
      \<lparr> period = 20, suppressionTime = 0, counter = 19, suppressionOnset = None \<rparr>)"
    by (simp add: Tracker_tick_def js_rem_def Let_def)
  have lf: "last_frames 40 (replicate 19 [Fin 1, Fin 2] @ [[Fin 1, Fin 2]]) =
      replicate 20 [Fin 1, Fin 2::jsnum]"
    by (simp add: last_frames_def replicate_snoc_numeral)
  have len: "2 \<le> int (length (fst scenario_sample))"
    by (simp add: scenario_sample_def)
  have tick20: "onAudioFrame ?e19 (fst scenario_sample) (snd scenario_sample) =
      (Returned, ?e19\<lparr> freqDataQueue := Some (replicate 20 [Fin 1, Fin 2]),
          tracker := Some \<lparr> period = 20, suppressionTime = 0, counter = 20,
                            suppressionOnset = None \<rparr>,
          callbackState := [window_tensor 40 2 (replicate 20 [Fin 1, Fin 2])] \<rparr>)"
    using onAudioFrame_window [OF q19 t19 static(3) loud static(1) _ static(2),
        of "snd scenario_sample"] fire len
    by (simp add: frame lf Let_def static(4) logging_callback_def cs19 Tracker_tick_snd)
  have e20: "onAudioFrames scenario_streaming (replicate 20 scenario_sample) =
      snd (onAudioFrame ?e19 (fst scenario_sample) (snd scenario_sample))"
    using onAudioFrames_snoc [of scenario_streaming "replicate 19 scenario_sample"
        "fst scenario_sample" "snd scenario_sample"]
    by (simp add: replicate_snoc_numeral [symmetric])
  have wt: "window_tensor 40 2 (replicate 20 [Fin 1, Fin 2]) =
      \<lparr> tensor_values = replicate 40 (Fin 0) @ concat (replicate 20 [Fin 1, Fin 2]),
        tensor_shape = [1, 40, 2, 1] \<rparr>"
    by (simp add: window_tensor_def)
  show ?thesis
    using scenario_constructed scenario_started cs19
    by (simp add: e20 tick20 wt) (simp add: scenario_streaming_def scenario_idle_def)
qed

section \<open>Properties of the score aggregation\<close>

text \<open>
  With at least one recording, each label shows the double nearest to its sum divided by
  the count, to three decimals, and the counter and the sums of the labels run over are zero afterwards.
\<close>

lemma mean_label_recorded:
  assumes "0 < predictionCounter a" and "i < length (predictionSumArray a)"
  shows "mean_label a i =
           toFixed3 (double_of (predictionSumArray a ! i / real (predictionCounter a)))"
  using assms by (simp add: mean_label_def array_get_def js_div_def)

lemma zero_fill:
  "foldl (\<lambda>arr i. array_put arr i (0::real)) xs [0..<n] =
     replicate (min n (length xs)) 0 @ drop n xs"
proof (induction n)
  case 0
  show ?case by simp
next
  case (Suc n)
  let ?zs = "replicate (min n (length xs)) (0::real) @ drop n xs"
  have step: "foldl (\<lambda>arr i. array_put arr i (0::real)) xs [0..<Suc n] = array_put ?zs n 0"
    using Suc.IH by simp
  show ?case
  proof (cases "n < length xs")
    case True
    then have "(replicate n (0::real) @ drop n xs)[n := 0] =
        replicate (Suc n) 0 @ drop (Suc n) xs"
      by (simp add: list_update_append upd_conv_take_nth_drop replicate_append_same)
    with True show ?thesis unfolding step by (simp add: array_put_def min_def)
  next
    case False
    then show ?thesis unfolding step by (simp add: array_put_def min_def)
  qed
qed

lemma showMP3Result_with_recordings:
  assumes "0 < predictionCounter a" and "n \<le> length (predictionSumArray a)"
  shows "label_values (fst (showMP3Result n a)) =
           map (\<lambda>i. toFixed3 (double_of (predictionSumArray a ! i
                                         / real (predictionCounter a))))
             [0..<n]
       \<and> predictionCounter (snd (showMP3Result n a)) = 0
       \<and> predictionSumArray (snd (showMP3Result n a)) =
           replicate n 0 @ drop n (predictionSumArray a)"
  using assms
  by (simp add: showMP3Result_def Let_def zero_fill mean_label_recorded min_def)

text \<open>
  A sum of 4.5 over 1000 recordings: the double quotient is below 0.0045 and shows as
  0.004, where the exact quotient would show as 0.005.
\<close>

lemma double_of_quotient: "double_of (9 / 2 / 1000) = Fin (5188146770730811 / 2 ^ 60)"
proof -
  have "fl 53 (- 1022) (9 / 2 / 1000) =
      of_int (round_even ((9 / 2 / 1000) / 2 powr of_int (- 8 - int 53 + 1)))
      * 2 powr of_int (- 8 - int 53 + 1)"
    by (rule fl_at_exponent) (simp_all add: powr_minus divide_simps)
  also have "(9 / 2 / 1000) / 2 powr of_int (- 8 - int 53 + 1) =
      (648518346341351424 / 125 :: real)"
    by (simp add: powr_minus divide_simps)
  also have "round_even (648518346341351424 / 125) = 5188146770730811"
    by (simp add: round_even_def Let_def)
  finally have "fl 53 (- 1022) (9 / 2 / 1000) = 5188146770730811 / 2 ^ 60"
    by (simp add: powr_minus divide_simps)
  then show ?thesis
    by (simp add: double_of_def overflowing_def)
qed

lemma mean_label_rounds_doubles:
  assumes "predictionCounter a = 1000" and "predictionSumArray a = [9 / 2, 0, 0, 0, 0]"
  shows "mean_label a 0 = Fin (4 / 1000)"
proof -
  have "mean_label a 0 = toFixed3 (double_of (9 / 2 / 1000))"
    using assms by (simp add: mean_label_def array_get_def js_div_def)
  also have "\<dots> = toFixed3 (Fin (5188146770730811 / 2 ^ 60))"
    by (simp only: double_of_quotient)
  also have "\<dots> = Fin (4 / 1000)"
    by simp
  finally show ?thesis .
qed

lemma upt5: "[0..<5] = [0, 1, 2, 3, 4]"
  by (simp add: upt_rec)

text \<open>
  C4, at the state \<open>init\<close> leaves (no recording, playback in progress).
  \<open>showMP3Result\<close> divides 0 by 0: every label shows \<open>NaN\<close>, no index is found
  (\<open>-1\<close>), and the message names the diagnosis \<open>undefined\<close>.
\<close>

theorem showMP3Result_without_recordings:
  "showMP3Result 5 (init_aggregate\<lparr> isProcess := True \<rparr>) =
     (\<lparr> label_values = [NaN, NaN, NaN, NaN, NaN],
        diagnosesArray = [NaN, NaN, NaN, NaN, NaN],
        best_index = - 1,
        result_label = ProbablePathology None \<rparr>,
      init_aggregate)"
  by (simp add: showMP3Result_def init_aggregate_def upt5 mean_label_def array_get_def
      js_div_def array_put_def Math_max_def indexOf_def js_strict_eq_def Let_def
      store32_def eval_nat_numeral)

end
